theory Spec2Isabelle
  imports Main
begin

section \<open>JavaScript strings\<close>

text \<open>
  A JavaScript string is modelled as a \<^typ>\<open>string\<close>: the list of its code units, each
  below 256 (ASCII and the Latin-1 supplement). Code units above that range are outside
  the model. The functions below are the \<^verbatim>\<open>String.prototype\<close> methods that
  \<^verbatim>\<open>debuggerLogic.js\<close> calls, with the source's names.
\<close>

text \<open>\<^verbatim>\<open>s.startsWith(k)\<close>, used to define \<^verbatim>\<open>s.includes(k)\<close>.\<close>

fun startsWith :: "string \<Rightarrow> string \<Rightarrow> bool" where
  "startsWith s [] = True"
| "startsWith [] (k # ks) = False"
| "startsWith (c # cs) (k # ks) = (c = k \<and> startsWith cs ks)"

text \<open>\<^verbatim>\<open>s.includes(k)\<close>: \<open>k\<close> occurs in \<open>s\<close> as a contiguous substring.\<close>

fun includesStr :: "string \<Rightarrow> string \<Rightarrow> bool" where
  "includesStr [] k = (k = [])"
| "includesStr (c # cs) k = (startsWith (c # cs) k \<or> includesStr cs k)"

text \<open>
  White space as \<^verbatim>\<open>\s\<close> and \<^verbatim>\<open>trim()\<close> see it, in the 8-bit range: TAB, LF, VT, FF, CR,
  SPACE and NBSP. The line terminators that \<^verbatim>\<open>.\<close> refuses to match are LF and CR.
\<close>

definition isSpace :: "char \<Rightarrow> bool" where
  "isSpace c = (c \<in> set [CHR 0x09, CHR 0x0A, CHR 0x0B, CHR 0x0C, CHR 0x0D, CHR 0x20, CHR 0xA0])"

definition isLineTerminator :: "char \<Rightarrow> bool" where
  "isLineTerminator c = (c = CHR 0x0A \<or> c = CHR 0x0D)"

definition isDigit :: "char \<Rightarrow> bool" where
  "isDigit c = (c \<in> set ''0123456789'')"

definition trim :: "string \<Rightarrow> string" where
  "trim s = rev (dropWhile isSpace (rev (dropWhile isSpace s)))"

text \<open>\<^verbatim>\<open>s.split('\n')\<close>: always at least one piece.\<close>

fun split_acc :: "char \<Rightarrow> string \<Rightarrow> string \<Rightarrow> string list" where
  "split_acc sep acc [] = [rev acc]"
| "split_acc sep acc (c # cs) =
     (if c = sep then rev acc # split_acc sep [] cs else split_acc sep (c # acc) cs)"

definition splitStr :: "string \<Rightarrow> char \<Rightarrow> string list" where
  "splitStr s sep = split_acc sep [] s"

text \<open>
  \<^verbatim>\<open>toLowerCase()\<close> on the 8-bit range: A-Z and the Latin-1 capitals move up by 32.
  \<^verbatim>\<open>toUpperCase()\<close> is given for ASCII only (a-z); the program applies it to the
  severities \<^verbatim>\<open>'error'\<close> and \<^verbatim>\<open>'warning'\<close>.
\<close>

definition upperChars :: string where
  "upperChars = ''ABCDEFGHIJKLMNOPQRSTUVWXYZ'' @
     [CHR 0xC0, CHR 0xC1, CHR 0xC2, CHR 0xC3, CHR 0xC4, CHR 0xC5, CHR 0xC6, CHR 0xC7,
      CHR 0xC8, CHR 0xC9, CHR 0xCA, CHR 0xCB, CHR 0xCC, CHR 0xCD, CHR 0xCE, CHR 0xCF,
      CHR 0xD0, CHR 0xD1, CHR 0xD2, CHR 0xD3, CHR 0xD4, CHR 0xD5, CHR 0xD6,
      CHR 0xD8, CHR 0xD9, CHR 0xDA, CHR 0xDB, CHR 0xDC, CHR 0xDD, CHR 0xDE]"

definition lowerChars :: string where
  "lowerChars = ''abcdefghijklmnopqrstuvwxyz'' @
     [CHR 0xE0, CHR 0xE1, CHR 0xE2, CHR 0xE3, CHR 0xE4, CHR 0xE5, CHR 0xE6, CHR 0xE7,
      CHR 0xE8, CHR 0xE9, CHR 0xEA, CHR 0xEB, CHR 0xEC, CHR 0xED, CHR 0xEE, CHR 0xEF,
      CHR 0xF0, CHR 0xF1, CHR 0xF2, CHR 0xF3, CHR 0xF4, CHR 0xF5, CHR 0xF6,
      CHR 0xF8, CHR 0xF9, CHR 0xFA, CHR 0xFB, CHR 0xFC, CHR 0xFD, CHR 0xFE]"

definition toLowerChar :: "char \<Rightarrow> char" where
  "toLowerChar c = (case map_of (zip upperChars lowerChars) c of Some d \<Rightarrow> d | None \<Rightarrow> c)"

definition toLowerCase :: "string \<Rightarrow> string" where
  "toLowerCase s = map toLowerChar s"

definition toUpperChar :: "char \<Rightarrow> char" where
  "toUpperChar c =
     (case map_of (zip (take 26 lowerChars) (take 26 upperChars)) c of Some d \<Rightarrow> d | None \<Rightarrow> c)"

definition toUpperCase :: "string \<Rightarrow> string" where
  "toUpperCase s = map toUpperChar s"

text \<open>
  \<^verbatim>\<open>s.indexOf(c)\<close> and \<^verbatim>\<open>s.lastIndexOf(c)\<close> for a one-character needle: the index of the
  first (last) occurrence, or -1.
\<close>

fun indexOf_from :: "int \<Rightarrow> string \<Rightarrow> char \<Rightarrow> int" where
  "indexOf_from i [] c = -1"
| "indexOf_from i (x # xs) c = (if x = c then i else indexOf_from (i + 1) xs c)"

definition indexOf :: "string \<Rightarrow> char \<Rightarrow> int" where
  "indexOf s c = indexOf_from 0 s c"

definition lastIndexOf :: "string \<Rightarrow> char \<Rightarrow> int" where
  "lastIndexOf s c =
     (let i = indexOf (rev s) c in if i < 0 then -1 else int (length s) - 1 - i)"

text \<open>
  \<^verbatim>\<open>s.substring(a, b)\<close>: both indices are clamped to \<open>[0, length]\<close> and swapped when
  \<open>a > b\<close>.
\<close>

definition substring :: "string \<Rightarrow> int \<Rightarrow> int \<Rightarrow> string" where
  "substring s a b =
     (let n = int (length s);
          a' = max 0 (min a n);
          b' = max 0 (min b n);
          lo = min a' b';
          hi = max a' b'
      in take (nat (hi - lo)) (drop (nat lo) s))"

text \<open>
  The pieces of \<open>s\<close> before and after the first occurrence of \<open>k\<close>, when there is one.
\<close>

fun breakOn :: "string \<Rightarrow> string \<Rightarrow> string \<Rightarrow> (string \<times> string) option" where
  "breakOn k acc [] = (if k = [] then Some (rev acc, []) else None)"
| "breakOn k acc (c # cs) =
     (if startsWith (c # cs) k then Some (rev acc, drop (length k) (c # cs))
      else breakOn k (c # acc) cs)"

text \<open>Decimal rendering of an integer, as a template literal prints a number.\<close>

definition digitChar :: "nat \<Rightarrow> char" where
  "digitChar d = ''0123456789'' ! (d mod 10)"

fun showNat :: "nat \<Rightarrow> string" where
  "showNat n = (if n < 10 then [digitChar n] else showNat (n div 10) @ [digitChar (n mod 10)])"

definition showInt :: "int \<Rightarrow> string" where
  "showInt i = (if i < 0 then CHR ''-'' # showNat (nat (- i)) else showNat (nat i))"

text \<open>
  \<^verbatim>\<open>parseInt(s, 10)\<close> on a string of decimal digits, which is all the program passes it
  (the captures of \<^verbatim>\<open>(\d+)\<close>). The value is exact; JavaScript rounds it to a double from
  \<open>2^53\<close> on.
\<close>

definition digitVal :: "char \<Rightarrow> nat" where
  "digitVal c = (case map_of (zip ''0123456789'' [0, 1, 2, 3, 4, 5, 6, 7, 8, 9]) c of
                   Some d \<Rightarrow> d | None \<Rightarrow> 0)"

definition parseInt :: "string \<Rightarrow> nat" where
  "parseInt s = foldl (\<lambda>n c. 10 * n + digitVal c) 0 s"

section \<open>JavaScript values and errors\<close>

text \<open>
  Values as \<^verbatim>\<open>JSON.parse\<close> and object literals build them. Numbers are integers (line and
  column numbers, severities, exit codes). An object is its list of own properties in
  insertion order, each name once.
\<close>

datatype jsval =
    JUndefined
  | JNull
  | JBool bool
  | JNum int
  | JStr string
  | JArr "jsval list"
  | JObj "(string \<times> jsval) list"

text \<open>
  A thrown value. \<open>err_response\<close> is what \<^verbatim>\<open>aiError.response?.text()\<close> does on it: the
  error has no \<^verbatim>\<open>response\<close>, or \<^verbatim>\<open>text()\<close> returns a string, or \<^verbatim>\<open>text()\<close> throws in its
  turn (with the given message).
\<close>

datatype err_response = NoResponse | ResponseText string | ResponseTextThrows string

datatype js_error = JsError (err_message: string) (err_response: err_response)

definition TypeError :: "string \<Rightarrow> js_error" where
  "TypeError m = JsError m NoResponse"

text \<open>Truthiness (\<^verbatim>\<open>ToBoolean\<close>).\<close>

fun truthy :: "jsval \<Rightarrow> bool" where
  "truthy JUndefined = False"
| "truthy JNull = False"
| "truthy (JBool b) = b"
| "truthy (JNum n) = (n \<noteq> 0)"
| "truthy (JStr s) = (s \<noteq> [])"
| "truthy (JArr xs) = True"
| "truthy (JObj ps) = True"

text \<open>
  Reading a property \<^verbatim>\<open>v.name\<close>, for the names this program reads (\<^verbatim>\<open>type\<close>, \<^verbatim>\<open>module\<close>,
  \<^verbatim>\<open>symbol\<close>, \<^verbatim>\<open>message\<close>, \<^verbatim>\<open>line\<close>, \<^verbatim>\<open>column\<close>, \<^verbatim>\<open>endLine\<close>, \<^verbatim>\<open>endColumn\<close>, \<^verbatim>\<open>severity\<close>,
  \<^verbatim>\<open>ruleId\<close>, \<^verbatim>\<open>explanation\<close>, \<^verbatim>\<open>suggestion\<close>, \<^verbatim>\<open>fixedCode\<close>): none of them is defined on
  a built-in prototype, so an object answers with its own property or \<^verbatim>\<open>undefined\<close>, a
  primitive or an array with \<^verbatim>\<open>undefined\<close>, and \<^verbatim>\<open>null\<close> and \<^verbatim>\<open>undefined\<close> throw.
\<close>

fun getprop :: "jsval \<Rightarrow> string \<Rightarrow> js_error + jsval" where
  "getprop JUndefined name =
     Inl (TypeError (''Cannot read properties of undefined (reading '' @ [CHR 0x27] @ name @ [CHR 0x27] @ '')''))"
| "getprop JNull name =
     Inl (TypeError (''Cannot read properties of null (reading '' @ [CHR 0x27] @ name @ [CHR 0x27] @ '')''))"
| "getprop (JObj ps) name = Inr (case map_of ps name of Some v \<Rightarrow> v | None \<Rightarrow> JUndefined)"
| "getprop v name = Inr JUndefined"

text \<open>
  \<^verbatim>\<open>ToString\<close>, as a template literal applies it. A parsed JSON object prints as
  \<^verbatim>\<open>[object Object]\<close> unless it has an own property \<^verbatim>\<open>toString\<close>, which is then not
  callable and makes the conversion throw; an array joins its elements with commas,
  \<^verbatim>\<open>null\<close> and \<^verbatim>\<open>undefined\<close> elements printing as the empty string.
\<close>

fun ToString :: "jsval \<Rightarrow> js_error + string"
  and join_elems :: "jsval list \<Rightarrow> js_error + string" where
  "ToString JUndefined = Inr ''undefined''"
| "ToString JNull = Inr ''null''"
| "ToString (JBool b) = Inr (if b then ''true'' else ''false'')"
| "ToString (JNum n) = Inr (showInt n)"
| "ToString (JStr s) = Inr s"
| "ToString (JArr xs) = join_elems xs"
| "ToString (JObj ps) =
     (if map_of ps ''toString'' = None then Inr ''[object Object]''
      else Inl (TypeError ''Cannot convert object to primitive value''))"
| "join_elems [] = Inr []"
| "join_elems (x # xs) =
     (case (if x = JUndefined \<or> x = JNull then Inr [] else ToString x) of
        Inl e \<Rightarrow> Inl e
      | Inr s \<Rightarrow>
          (if xs = [] then Inr s
           else (case join_elems xs of Inl e \<Rightarrow> Inl e | Inr t \<Rightarrow> Inr (s @ '','' @ t))))"

text \<open>\<^verbatim>\<open>a || b\<close> on strings: the first one that is not empty.\<close>

definition orElse :: "string \<Rightarrow> string \<Rightarrow> string" where
  "orElse a b = (if a \<noteq> [] then a else b)"

section \<open>The world outside the module\<close>

text \<open>
  Everything the module calls but does not define is a field of the environment: the
  answer the library, the file system, the child process or the Gemini service gives in
  this run. The module's own effects are recorded in the \<open>world\<close>: the set of files that
  exist and the trace of the calls it made, in order.
\<close>

text \<open>
  One message of ESLint's \<^verbatim>\<open>LintResult.messages\<close>, and one \<^verbatim>\<open>LintResult\<close>; \<open>lint_output\<close> is
  its \<^verbatim>\<open>output\<close>, present when a fix was applied.
\<close>

record lint_message =
  ruleId :: "string option"
  severity :: int
  message :: string
  line :: jsval
  column :: jsval
  nodeType :: jsval
  suggestions :: jsval

record lint_result =
  messages :: "lint_message list"
  lint_output :: "string option"

text \<open>
  What a spawned child process does: \<^verbatim>\<open>spawn\<close> throws, or the child emits \<^verbatim>\<open>'error'\<close> (it
  could not be started), or it emits \<^verbatim>\<open>'close'\<close> with its exit code (\<^verbatim>\<open>null\<close> is \<open>None\<close>),
  after writing \<open>proc_stdout\<close> and \<open>proc_stderr\<close> and creating the files \<open>proc_created\<close>.
\<close>

datatype proc_event =
    SpawnThrows js_error
  | ErrorEvent js_error
  | Close (exit_code: "int option") (proc_stdout: string) (proc_stderr: string)
      (proc_created: "string list")

record env =
  api_key_present :: bool
  sendMessage :: "string \<Rightarrow> js_error + string"
  JSON_parse :: "string \<Rightarrow> js_error + jsval"
  lintText :: "string \<Rightarrow> js_error + lint_result list"
  tmpdir :: string
  Date_now :: "nat \<Rightarrow> nat"
  path_sep :: string
  path_resolve :: "string \<Rightarrow> string"
  writeFile_error :: "string \<Rightarrow> js_error option"
  unlink_fails :: "string \<Rightarrow> bool"
  spawn :: "string \<Rightarrow> string list \<Rightarrow> proc_event"

text \<open>
  \<^item> \<open>api_key_present\<close>: \<^verbatim>\<open>process.env.GOOGLE_API_KEY\<close> is set, so \<^verbatim>\<open>model\<close> is not \<^verbatim>\<open>null\<close>;
  \<^item> \<open>sendMessage prompt\<close>: \<^verbatim>\<open>model.startChat\<close>, \<^verbatim>\<open>chat.sendMessage(prompt)\<close>,
    \<^verbatim>\<open>result.response\<close> and \<^verbatim>\<open>response.text()\<close> together: the text, or what one of them threw;
  \<^item> \<open>lintText code\<close>: \<^verbatim>\<open>new ESLint(...)\<close> and \<^verbatim>\<open>eslint.lintText(code)\<close> together;
  \<^item> \<open>Date_now k\<close>: what the \<open>k\<close>-th call of \<^verbatim>\<open>Date.now()\<close> in this run returns;
  \<^item> \<open>path_resolve rel\<close>: \<^verbatim>\<open>path.resolve(__dirname, rel)\<close>;
  \<^item> \<open>writeFile_error p\<close>: the error \<^verbatim>\<open>fs.writeFile(p, _)\<close> rejects with, if it does;
  \<^item> \<open>unlink_fails p\<close>: \<^verbatim>\<open>fs.unlink(p)\<close> rejects although \<open>p\<close> exists.
\<close>

datatype event =
    WriteFile string string
  | Unlink string
  | Spawn string "string list"
  | AugmenterCall string
  | ExternalCall string

record world =
  files :: "string set"
  trace :: "event list"

definition emit :: "event \<Rightarrow> world \<Rightarrow> world" where
  "emit ev w = w\<lparr>trace := trace w @ [ev]\<rparr>"

text \<open>\<^verbatim>\<open>await fs.writeFile(p, code)\<close>.\<close>

definition writeFile :: "env \<Rightarrow> string \<Rightarrow> string \<Rightarrow> world \<Rightarrow> (js_error + unit) \<times> world" where
  "writeFile E p content w =
     (case writeFile_error E p of
        Some e \<Rightarrow> (Inl e, emit (WriteFile p content) w)
      | None \<Rightarrow> (Inr (), emit (WriteFile p content) (w\<lparr>files := insert p (files w)\<rparr>)))"

text \<open>
  \<^verbatim>\<open>await fs.unlink(p).catch(e => ...)\<close>: the rejection is logged and dropped, so only the
  world is returned.
\<close>

definition unlink :: "env \<Rightarrow> string \<Rightarrow> world \<Rightarrow> world" where
  "unlink E p w =
     emit (Unlink p) (if p \<in> files w \<and> \<not> unlink_fails E p then w\<lparr>files := files w - {p}\<rparr> else w)"

text \<open>\<^verbatim>\<open>fsSync.existsSync(p)\<close>.\<close>

definition existsSync :: "world \<Rightarrow> string \<Rightarrow> bool" where
  "existsSync w p = (p \<in> files w)"

text \<open>How the promise a strategy returns ends.\<close>

datatype 'a promise = Resolved 'a | Rejected js_error | Unsettled

section \<open>Results\<close>

record analysis_entry =
  filePath :: string
  entry_messages :: "jsval list"

datatype analysis_result =
    Success (analysis: "analysis_entry list") (fixedCode: string)
      (aiFixedCode: jsval) (aiExplanation: jsval) (aiSuggestion: jsval)
  | Failure (error: string) (details: "string option")

fun success :: "analysis_result \<Rightarrow> bool" where
  "success (Success a f x y z) = True"
| "success (Failure e d) = False"

text \<open>The diagnostics of a result: the messages of all its entries.\<close>

fun diagnostics :: "analysis_result \<Rightarrow> jsval list" where
  "diagnostics (Success a f x y z) = concat (map entry_messages a)"
| "diagnostics (Failure e d) = []"

record ai_data =
  ai_explanation :: jsval
  ai_suggestion :: jsval
  ai_fixedCode :: jsval

definition all_null :: ai_data where
  "all_null = \<lparr>ai_explanation = JNull, ai_suggestion = JNull, ai_fixedCode = JNull\<rparr>"

section \<open>The explanation table\<close>

record explanation_entry =
  explanation :: string
  suggestion :: string

text \<open>
  \<^verbatim>\<open>errorExplanations\<close>: the own properties of the object literal, in the order they are
  written, which is the order \<^verbatim>\<open>for (const key in errorExplanations)\<close> visits them.
\<close>

definition errorExplanations :: "(string \<times> explanation_entry) list" where
  "errorExplanations = [
    (''Unterminated string constant'',
     \<lparr>explanation =
        ''This error occurs when a string literal (text enclosed in quotes) is not '' @
        ''properly closed with its matching quote. For example, `'' @
        [CHR 0x22] @ ''Hello` is missing a closing `'' @ [CHR 0x22] @ ''` or `'`.'',
      suggestion =
        ''Ensure all your string literals start and end with matching single (`'`) or '' @
        ''double (`'' @
        [CHR 0x22] @ ''`) quotes.''\<rparr>),
    (''Unexpected token'',
     \<lparr>explanation =
        ''This means there's a character or symbol where the JavaScript parser didn't '' @
        ''expect it, often due to a syntax error or a typo.'',
      suggestion =
        ''Check for missing or extra punctuation (like parentheses, brackets, curly '' @
        ''braces, or semicolons), typos in keywords, or incorrect operator usage around '' @
        ''the reported line and column. This can also happen with invalid syntax for '' @
        ''newer JavaScript features if `ecmaVersion` is too low.''\<rparr>),
    (''Missing semicolon'',
     \<lparr>explanation =
        ''This is a basic syntax error where a semicolon (`;`) is expected at the end of '' @
        ''a statement but is missing.'',
      suggestion =
        ''Add a semicolon (`;`) at the end of the problematic line to terminate the statement.''\<rparr>),
    (''Unexpected end of input'',
     \<lparr>explanation =
        ''The JavaScript parser reached the end of the code unexpectedly. This often '' @
        ''means a block (like a function, loop, or if statement) was started but not '' @
        ''properly closed with a curly brace (`}`).'',
      suggestion =
        ''Check for unclosed curly braces `{}`, parentheses `()`, or square brackets '' @
        ''`[]`. Ensure all blocks are properly terminated.''\<rparr>),
    (''no-undef'',
     \<lparr>explanation =
        ''This error means you are trying to use a variable or function that has not been '' @
        ''declared or imported in the current scope. ESLint cannot find its definition.'',
      suggestion =
        ''Declare the variable/function using `const`, `let`, or `var` before using it. '' @
        ''If it's a global variable (like `document`, `window`), ensure your ESLint '' @
        ''configuration's `env` or `globals` settings are correct. Check for typos in the '' @
        ''variable/function name.''\<rparr>),
    (''no-unused-vars'',
     \<lparr>explanation =
        ''This warning indicates that you have declared a variable or imported a module '' @
        ''but are not using it anywhere in your code. Unused code can be a sign of a bug '' @
        ''or unnecessary complexity.'',
      suggestion =
        ''Remove the unused variable/import or ensure it's being utilized in your logic '' @
        ''to avoid dead code and improve readability.''\<rparr>),
    (''semi'',
     \<lparr>explanation =
        ''This rule enforces the use of semicolons (`;`) at the end of statements for '' @
        ''consistency and to prevent potential automatic semicolon insertion (ASI) issues.'',
      suggestion =
        ''Add a semicolon (`;`) at the end of the problematic line. If you prefer not to '' @
        ''use semicolons, you need to configure ESLint accordingly.''\<rparr>),
    (''indent'',
     \<lparr>explanation =
        ''This rule enforces a consistent indentation style (e.g., 2 or 4 spaces, or '' @
        ''tabs) across your codebase. Inconsistent indentation can make code hard to read.'',
      suggestion =
        ''Adjust the indentation of the line to match the configured style (e.g., use 4 '' @
        ''spaces instead of 2, or vice versa). Many IDEs can automatically format this.''\<rparr>),
    (''quotes'',
     \<lparr>explanation =
        ''This rule enforces consistent use of single (`'`) or double (`'' @ [CHR 0x22] @
        ''`) quotes for string literals. Consistency improves readability.'',
      suggestion =
        ''Change the quotes (single to double, or double to single) to match the '' @
        ''configured style (e.g., use single quotes if `quotes: ['error', 'single']` is set).''\<rparr>),
    (''no-trailing-spaces'',
     \<lparr>explanation =
        ''This rule disallows extraneous whitespace at the end of lines.'',
      suggestion =
        ''Remove any trailing spaces at the end of the line.''\<rparr>),
    (''eol-last'',
     \<lparr>explanation =
        ''This rule enforces a newline character at the end of the file.'',
      suggestion =
        ''Add an empty line (newline character) at the very end of your file.''\<rparr>)]"

text \<open>
  The properties every object literal inherits from \<^verbatim>\<open>Object.prototype\<close>. Indexing the
  table with one of these names gives a function or an object, which is truthy and has
  neither \<^verbatim>\<open>explanation\<close> nor \<^verbatim>\<open>suggestion\<close>.
\<close>

definition objectPrototypeNames :: "string list" where
  "objectPrototypeNames =
     [''constructor'', ''__defineGetter__'', ''__defineSetter__'', ''hasOwnProperty'',
      ''__lookupGetter__'', ''__lookupSetter__'', ''isPrototypeOf'', ''propertyIsEnumerable'',
      ''toString'', ''valueOf'', ''__proto__'', ''toLocaleString'']"

text \<open>
  The value of the local variable \<^verbatim>\<open>explanationData\<close>: an explanation/suggestion pair, or a
  value inherited from \<^verbatim>\<open>Object.prototype\<close>.
\<close>

datatype explanation_data = Entry explanation_entry | InheritedValue

text \<open>\<^verbatim>\<open>errorExplanations[key]\<close>; \<open>None\<close> is \<^verbatim>\<open>undefined\<close>.\<close>

definition tableGet :: "string \<Rightarrow> explanation_data option" where
  "tableGet key =
     (case map_of errorExplanations key of
        Some e \<Rightarrow> Some (Entry e)
      | None \<Rightarrow> if key \<in> set objectPrototypeNames then Some InheritedValue else None)"

definition fallbackEntry :: explanation_entry where
  "fallbackEntry =
     \<lparr>explanation =
        ''No specific explanation available for this error.'',
      suggestion =
        ''Review the code at the reported line and column for syntax errors or logical '' @
        ''inconsistencies. Search for the error message or rule ID online.''\<rparr>"

text \<open>
  The \<^verbatim>\<open>for ... in\<close> loop of \<^verbatim>\<open>runEsLintAnalysis\<close> over the remaining table entries: the
  first key the message includes assigns \<^verbatim>\<open>explanationData\<close> and breaks.
\<close>

fun firstIncluded :: "string \<Rightarrow> (string \<times> explanation_entry) list \<Rightarrow> explanation_entry option" where
  "firstIncluded msg [] = None"
| "firstIncluded msg ((key, e) # rest) =
     (if includesStr msg key then Some e else firstIncluded msg rest)"

text \<open>\<^verbatim>\<open>msg.ruleId\<close> is truthy: it is a string and not the empty one.\<close>

definition ruleIdTruthy :: "string option \<Rightarrow> bool" where
  "ruleIdTruthy r = (case r of None \<Rightarrow> False | Some s \<Rightarrow> s \<noteq> [])"

text \<open>
  The value of \<^verbatim>\<open>msg.ruleId && errorExplanations[msg.ruleId]\<close> when it is truthy, that is,
  when the rule id is truthy and the table answers.
\<close>

definition ruleLookup :: "string option \<Rightarrow> explanation_data option" where
  "ruleLookup r = (case r of None \<Rightarrow> None | Some s \<Rightarrow> if s = [] then None else tableGet s)"

text \<open>
  \<^verbatim>\<open>explanationData\<close> after the \<^verbatim>\<open>if\<close>/\<^verbatim>\<open>else\<close> of the \<^verbatim>\<open>map\<close> callback. The loop body tests
  \<^verbatim>\<open>!msg.ruleId\<close> at every key, so with a truthy rule id it assigns nothing.
\<close>

definition explanationFor :: "lint_message \<Rightarrow> explanation_data" where
  "explanationFor msg =
     (case ruleLookup (ruleId msg) of
        Some explanationData \<Rightarrow> explanationData
      | None \<Rightarrow>
          if \<not> ruleIdTruthy (ruleId msg)
          then (case firstIncluded (message msg) errorExplanations of
                  Some e \<Rightarrow> Entry e
                | None \<Rightarrow> Entry fallbackEntry)
          else Entry fallbackEntry)"

text \<open>\<^verbatim>\<open>explanationData.explanation\<close> and \<^verbatim>\<open>explanationData.suggestion\<close>.\<close>

fun dataExplanation :: "explanation_data \<Rightarrow> jsval" where
  "dataExplanation (Entry e) = JStr (explanation e)"
| "dataExplanation InheritedValue = JUndefined"

fun dataSuggestion :: "explanation_data \<Rightarrow> jsval" where
  "dataSuggestion (Entry e) = JStr (suggestion e)"
| "dataSuggestion InheritedValue = JUndefined"

section \<open>The explanation augmenter\<close>

definition bindE :: "'e + 'a \<Rightarrow> ('a \<Rightarrow> 'e + 'b) \<Rightarrow> 'e + 'b" where
  "bindE m f = (case m of Inl e \<Rightarrow> Inl e | Inr a \<Rightarrow> f a)"

text \<open>\<^verbatim>\<open>xs.map(f)\<close> for a callback that may throw: the first throw ends the loop.\<close>

fun mapE :: "('a \<Rightarrow> 'e + 'b) \<Rightarrow> 'a list \<Rightarrow> 'e + 'b list" where
  "mapE f [] = Inr []"
| "mapE f (x # xs) = bindE (f x) (\<lambda>y. bindE (mapE f xs) (\<lambda>ys. Inr (y # ys)))"

text \<open>\<^verbatim>\<open>lines.join('\n')\<close>.\<close>

fun joinLines :: "string list \<Rightarrow> string" where
  "joinLines [] = []"
| "joinLines [l] = l"
| "joinLines (l # ls) = l @ [CHR 0x0A] @ joinLines ls"

text \<open>\<^verbatim>\<open>msg.severity.toUpperCase()\<close>: defined on strings only.\<close>

fun severityToUpperCase :: "jsval \<Rightarrow> js_error + string" where
  "severityToUpperCase (JStr s) = Inr (toUpperCase s)"
| "severityToUpperCase JUndefined =
     Inl (TypeError (''Cannot read properties of undefined (reading 'toUpperCase')''))"
| "severityToUpperCase JNull =
     Inl (TypeError (''Cannot read properties of null (reading 'toUpperCase')''))"
| "severityToUpperCase v = Inl (TypeError ''msg.severity.toUpperCase is not a function'')"

text \<open>
  One line of the prompt's issue list, the callback of \<^verbatim>\<open>errorMessages.map\<close>. The
  substitutions are evaluated and converted from left to right.
\<close>

definition issueLine :: "jsval \<Rightarrow> js_error + string" where
  "issueLine msg =
     bindE (getprop msg ''line'') (\<lambda>l. bindE (ToString l) (\<lambda>ls.
     bindE (getprop msg ''column'') (\<lambda>c. bindE (ToString c) (\<lambda>cs.
     bindE (getprop msg ''severity'') (\<lambda>s. bindE (severityToUpperCase s) (\<lambda>ss.
     bindE (getprop msg ''message'') (\<lambda>m. bindE (ToString m) (\<lambda>ms.
     bindE (getprop msg ''ruleId'') (\<lambda>r. bindE (if truthy r then ToString r else Inr ''N/A'') (\<lambda>rs.
     Inr (''- Line '' @ ls @ '', Column '' @ cs @ '' ['' @ ss @ '']: '' @ ms @
          '' (Rule: '' @ rs @ '')'')))))))))))"

text \<open>The template literal \<^verbatim>\<open>prompt\<close>. It is built before the \<^verbatim>\<open>try\<close> block is entered.\<close>

definition buildPrompt :: "string \<Rightarrow> string \<Rightarrow> jsval list \<Rightarrow> js_error + string" where
  "buildPrompt code language errorMessages =
     bindE (mapE issueLine errorMessages) (\<lambda>ls.
       Inr (''You are an expert code debugger. Analyze the following '' @ language @
            ('' code and its reported issues. Provide a clear, concise explanation of the '' @
             ''root cause of the error(s) and a specific, actionable suggestion to fix '' @
             ''it. If possible, provide the complete corrected code.'' @
             [CHR 0x0A, CHR 0x0A] @ ''Code:'' @ [CHR 0x0A] @ ''```'') @ language @
            ([CHR 0x0A]) @ code @
            ([CHR 0x0A] @ ''```'' @ [CHR 0x0A, CHR 0x0A] @ ''Reported Issues:'' @ [CHR 0x0A]) @ joinLines ls @
            ([CHR 0x0A, CHR 0x0A] @
             ''Please provide your response in the following JSON format:'' @ [CHR 0x0A] @ ''{'' @
             [CHR 0x0A] @ ''  '' @ [CHR 0x22] @ ''explanation'' @ [CHR 0x22] @ '': '' @
             [CHR 0x22] @ ''Detailed explanation of the problem.'' @ [CHR 0x22] @ '','' @
             [CHR 0x0A] @ ''  '' @ [CHR 0x22] @ ''suggestion'' @ [CHR 0x22] @ '': '' @
             [CHR 0x22] @ ''Specific steps to fix the problem.'' @ [CHR 0x22] @ '','' @
             [CHR 0x0A] @ ''  '' @ [CHR 0x22] @ ''fixedCode'' @ [CHR 0x22] @ '': '' @ [CHR 0x22] @
             ''If possible, the complete corrected code block. Otherwise, null.'' @
             [CHR 0x22, CHR 0x0A] @ ''}'' @ [CHR 0x0A])))"

text \<open>
  The capture of \<^verbatim>\<open>text.match(/```json\n([\s\S]*?)\n```/)\<close>: what lies between the first
  opening fence and the first closing fence after it.
\<close>

definition fenceMatch :: "string \<Rightarrow> string option" where
  "fenceMatch text =
     (case breakOn (''```json'' @ [CHR 0x0A]) [] text of
        None \<Rightarrow> None
      | Some (before, rest) \<Rightarrow>
          (case breakOn ([CHR 0x0A] @ ''```'') [] rest of
             None \<Rightarrow> None
           | Some (inner, after) \<Rightarrow> Some inner))"

text \<open>The \<^verbatim>\<open>try\<close> block of \<^verbatim>\<open>getAIExplanation\<close> from the response text on.\<close>

definition parseResponse :: "env \<Rightarrow> string \<Rightarrow> js_error + ai_data" where
  "parseResponse E text =
     (let jsonText =
            (case fenceMatch text of
               Some inner \<Rightarrow> inner
             | None \<Rightarrow> substring text (indexOf text (CHR ''{'')) (lastIndexOf text (CHR ''}'') + 1))
      in if jsonText = [] \<or> trim jsonText = []
         then Inr \<lparr>ai_explanation = JStr text,
                   ai_suggestion =
                     JStr ''Could not parse AI response into JSON. Check original AI response.'',
                   ai_fixedCode = JNull\<rparr>
         else bindE (JSON_parse E jsonText) (\<lambda>parsedResponse.
              bindE (getprop parsedResponse ''explanation'') (\<lambda>ex.
              bindE (getprop parsedResponse ''suggestion'') (\<lambda>su.
              bindE (getprop parsedResponse ''fixedCode'') (\<lambda>fc.
              Inr \<lparr>ai_explanation = ex, ai_suggestion = su, ai_fixedCode = fc\<rparr>)))))"

text \<open>
  The \<^verbatim>\<open>catch (aiError)\<close> block: it logs \<^verbatim>\<open>aiError.response?.text() || aiError.message\<close> and
  returns the three nulls; when \<^verbatim>\<open>text()\<close> throws, that error leaves the function.
\<close>

definition catchAiError :: "js_error \<Rightarrow> js_error + ai_data" where
  "catchAiError aiError =
     (case err_response aiError of
        ResponseTextThrows m \<Rightarrow> Inl (JsError m NoResponse)
      | _ \<Rightarrow> Inr all_null)"

text \<open>
  \<^verbatim>\<open>getAIExplanation(code, language, errorMessages)\<close>. \<open>Inl\<close> is a rejected promise. The
  call itself is recorded in the trace as \<open>AugmenterCall\<close>, the request to the service as
  \<open>ExternalCall\<close>.
\<close>

definition getAIExplanation ::
    "env \<Rightarrow> string \<Rightarrow> string \<Rightarrow> jsval list \<Rightarrow> world \<Rightarrow> (js_error + ai_data) \<times> world" where
  "getAIExplanation E code language errorMessages w0 =
     (let w = emit (AugmenterCall language) w0
      in if \<not> api_key_present E then (Inr all_null, w)
         else
           (case buildPrompt code language errorMessages of
              Inl e \<Rightarrow> (Inl e, w)
            | Inr prompt \<Rightarrow>
                (case bindE (sendMessage E prompt) (parseResponse E) of
                   Inr d \<Rightarrow> (Inr d, emit (ExternalCall prompt) w)
                 | Inl aiError \<Rightarrow> (catchAiError aiError, emit (ExternalCall prompt) w))))"

section \<open>The JavaScript strategy\<close>

text \<open>The object the \<^verbatim>\<open>map\<close> callback of \<^verbatim>\<open>runEsLintAnalysis\<close> returns for one lint message.\<close>

definition formatLintMessage :: "lint_message \<Rightarrow> jsval" where
  "formatLintMessage msg =
     (let explanationData = explanationFor msg
      in JObj [(''ruleId'', (case ruleId msg of None \<Rightarrow> JNull | Some r \<Rightarrow> JStr r)),
               (''severity'', JStr (if severity msg = 2 then ''error'' else ''warning'')),
               (''message'', JStr (message msg)),
               (''line'', line msg),
               (''column'', column msg),
               (''nodeType'', nodeType msg),
               (''suggestions'', (if truthy (suggestions msg) then suggestions msg else JArr [])),
               (''errorExplanation'', dataExplanation explanationData),
               (''errorSuggestion'', dataSuggestion explanationData)])"

definition eslintFailure :: "js_error \<Rightarrow> analysis_result" where
  "eslintFailure err =
     Failure ''Failed to run ESLint. Check server logs for details.'' (Some (err_message err))"

definition textEntry :: "jsval list \<Rightarrow> analysis_entry list" where
  "textEntry formattedMessages = [\<lparr>filePath = ''<text>'', entry_messages = formattedMessages\<rparr>]"

definition runEsLintAnalysis :: "env \<Rightarrow> string \<Rightarrow> world \<Rightarrow> analysis_result promise \<times> world" where
  "runEsLintAnalysis E code w =
     (case lintText E code of
        Inl err \<Rightarrow> (Resolved (eslintFailure err), w)
      | Inr results \<Rightarrow>
          (let fixedCode =
                 (case results of
                    [] \<Rightarrow> code
                  | r # rs \<Rightarrow> (case lint_output r of Some out \<Rightarrow> out | None \<Rightarrow> code));
               formattedMessages =
                 concat (map (\<lambda>result. map formatLintMessage (messages result)) results)
           in if length formattedMessages > 0
              then
                (case getAIExplanation E code ''javascript'' formattedMessages w of
                   (Inl err, w') \<Rightarrow> (Resolved (eslintFailure err), w')
                 | (Inr d, w') \<Rightarrow>
                     (Resolved (Success (textEntry formattedMessages) fixedCode
                                 (ai_fixedCode d) (ai_explanation d) (ai_suggestion d)), w'))
              else (Resolved (Success (textEntry formattedMessages) fixedCode
                               JNull JNull JNull), w)))"

section \<open>Temporary files\<close>

text \<open>
  \<^verbatim>\<open>path.join(dir, name)\<close> for a normalised directory and a plain file name: the two joined
  by the platform's separator.
\<close>

definition path_join :: "env \<Rightarrow> string \<Rightarrow> string \<Rightarrow> string" where
  "path_join E dir name = dir @ path_sep E @ name"

section \<open>The Python strategy\<close>

text \<open>The object the \<^verbatim>\<open>map\<close> callback of \<^verbatim>\<open>runPylintAnalysis\<close> returns for one Pylint record.\<close>

definition formatPylintMessage :: "jsval \<Rightarrow> js_error + jsval" where
  "formatPylintMessage msg =
     bindE (getprop msg ''type'') (\<lambda>ty.
     bindE (getprop msg ''module'') (\<lambda>mo.
     bindE (getprop msg ''symbol'') (\<lambda>sy.
     bindE (getprop msg ''message'') (\<lambda>me.
     bindE (getprop msg ''line'') (\<lambda>li.
     bindE (getprop msg ''column'') (\<lambda>co.
     bindE (getprop msg ''endLine'') (\<lambda>el.
     bindE (getprop msg ''endColumn'') (\<lambda>ec.
     bindE (ToString ty) (\<lambda>tys.
     bindE (ToString me) (\<lambda>mes.
     bindE (ToString li) (\<lambda>lis.
     bindE (ToString co) (\<lambda>cos.
     bindE (ToString sy) (\<lambda>sys.
     Inr (JObj [(''type'', ty),
                (''module'', mo),
                (''symbol'', sy),
                (''message'', me),
                (''line'', li),
                (''column'', co),
                (''endLine'', el),
                (''endColumn'', ec),
                (''errorExplanation'',
                   JStr (''Pylint found a '' @ [CHR 0x27] @ tys @ [CHR 0x27] @ '' type issue: '' @
                         mes @ ''.'')),
                (''errorSuggestion'',
                   JStr (''Review the Python code at line '' @ lis @ '', column '' @ cos @
                         ''. Consult Pylint documentation for rule '' @ [CHR 0x27] @ sys @
                         [CHR 0x27] @ ''.''))]))))))))))))))"

text \<open>\<^verbatim>\<open>pylintResults.map(...)\<close>: only an array has \<^verbatim>\<open>map\<close>.\<close>

fun formatPylintResults :: "jsval \<Rightarrow> js_error + jsval list" where
  "formatPylintResults (JArr xs) = mapE formatPylintMessage xs"
| "formatPylintResults JNull =
     Inl (TypeError (''Cannot read properties of null (reading '' @ [CHR 0x27] @ ''map'' @ [CHR 0x27] @ '')''))"
| "formatPylintResults JUndefined =
     Inl (TypeError (''Cannot read properties of undefined (reading '' @ [CHR 0x27] @ ''map'' @ [CHR 0x27] @ '')''))"
| "formatPylintResults v = Inl (TypeError ''pylintResults.map is not a function'')"

text \<open>The result of the \<^verbatim>\<open>catch (parseError)\<close> block.\<close>

definition pylintParseFailure :: "string \<Rightarrow> string \<Rightarrow> js_error \<Rightarrow> analysis_result" where
  "pylintParseFailure stdout stderr parseError =
     Failure ''Failed to parse Pylint output.''
       (Some (orElse stdout (orElse stderr (err_message parseError))))"

definition pylintNotInstalled :: string where
  "pylintNotInstalled =
     ''Pylint is not installed or not in your system's PATH. Please install it (e.g.,'' @
     '' 'pip install pylint').''"

text \<open>
  The test for a missing tool inside \<^verbatim>\<open>if (stderr)\<close>: the message of the Windows shell or
  of zsh.
\<close>

definition pylintSignature :: "string \<Rightarrow> bool" where
  "pylintSignature stderr =
     (stderr \<noteq> [] \<and>
      (includesStr stderr ([CHR 0x27] @ ''pylint' is not recognized'') \<or>
       includesStr stderr ''command not found: pylint''))"

text \<open>The \<^verbatim>\<open>'close'\<close> handler of \<^verbatim>\<open>runPylintAnalysis\<close>.\<close>

definition pylintOnClose ::
    "env \<Rightarrow> string \<Rightarrow> string \<Rightarrow> string \<Rightarrow> string \<Rightarrow> world \<Rightarrow> analysis_result promise \<times> world" where
  "pylintOnClose E code tempFilePath stdout stderr w0 =
     (let w = unlink E tempFilePath w0
      in if pylintSignature stderr
         then (Resolved (Failure pylintNotInstalled None), w)
         else if stderr \<noteq> [] \<and> stdout = []
         then (Resolved (Failure (''Pylint encountered an error: '' @ trim stderr) None), w)
         else
           (case bindE (JSON_parse E (orElse stdout ''[]'')) formatPylintResults of
              Inl parseError \<Rightarrow> (Resolved (pylintParseFailure stdout stderr parseError), w)
            | Inr formattedMessages \<Rightarrow>
                (if length formattedMessages > 0
                 then
                   (case getAIExplanation E code ''python'' formattedMessages w of
                      (Inl parseError, w') \<Rightarrow>
                        (Resolved (pylintParseFailure stdout stderr parseError), w')
                    | (Inr d, w') \<Rightarrow>
                        (Resolved (Success (textEntry formattedMessages) code
                                    (ai_fixedCode d) (ai_explanation d) (ai_suggestion d)), w'))
                 else (Resolved (Success (textEntry formattedMessages) code
                                  JNull JNull JNull), w))))"

text \<open>The outer \<^verbatim>\<open>catch (error)\<close> block of \<^verbatim>\<open>runPylintAnalysis\<close>.\<close>

definition pylintCatch ::
    "env \<Rightarrow> string \<Rightarrow> js_error \<Rightarrow> world \<Rightarrow> analysis_result promise \<times> world" where
  "pylintCatch E tempFilePath err w =
     (Resolved (Failure ''Failed to prepare Python code for analysis.'' (Some (err_message err))),
      (if tempFilePath \<noteq> [] then unlink E tempFilePath w else w))"

definition pylintTempFile :: "env \<Rightarrow> string" where
  "pylintTempFile E = path_join E (tmpdir E) (''temp_python_code_'' @ showNat (Date_now E 0) @ ''.py'')"

definition pylintArgs :: "env \<Rightarrow> string list" where
  "pylintArgs E =
     [pylintTempFile E, ''--output-format=json'', ''--rcfile='' @ path_resolve E ''../.pylintrc'']"

definition runPylintAnalysis :: "env \<Rightarrow> string \<Rightarrow> world \<Rightarrow> analysis_result promise \<times> world" where
  "runPylintAnalysis E code w =
     (let tempFilePath = pylintTempFile E
      in case writeFile E tempFilePath code w of
           (Inl err, w1) \<Rightarrow> pylintCatch E tempFilePath err w1
         | (Inr u, w1) \<Rightarrow>
             (let w2 = emit (Spawn ''pylint'' (pylintArgs E)) w1
              in case spawn E ''pylint'' (pylintArgs E) of
                   SpawnThrows err \<Rightarrow> pylintCatch E tempFilePath err w2
                 | ErrorEvent err \<Rightarrow>
                     (Rejected (JsError (''Failed to run Pylint: '' @ err_message err @
                                         ''. Is Pylint installed and in your PATH?'') NoResponse),
                      (if tempFilePath \<noteq> [] then unlink E tempFilePath w2 else w2))
                 | Close exitCode stdout stderr created \<Rightarrow>
                     pylintOnClose E code tempFilePath stdout stderr
                       (w2\<lparr>files := files w2 \<union> set created\<rparr>)))"

section \<open>The C++ strategy\<close>

text \<open>
  The pattern \<^verbatim>\<open>/^(.*?):(\d+):(\d+):\s*(error|warning):\s*(.*)$/\<close> that the \<^verbatim>\<open>'close'\<close> handler
  matches every line of stderr against. \<open>matchTail\<close> is the pattern from the first colon
  on, matched at the start of a string: every quantifier in it is followed by a
  character it cannot itself match, so there is one way to match. It returns the
  captures 2 to 5.
\<close>

definition skipChar :: "char \<Rightarrow> string \<Rightarrow> string option" where
  "skipChar c s = (case s of [] \<Rightarrow> None | x # xs \<Rightarrow> if x = c then Some xs else None)"

definition digits1 :: "string \<Rightarrow> (string \<times> string) option" where
  "digits1 s = (if takeWhile isDigit s = [] then None
                else Some (takeWhile isDigit s, dropWhile isDigit s))"

definition severityWord :: "string \<Rightarrow> (string \<times> string) option" where
  "severityWord s =
     (if startsWith s ''error'' then Some (''error'', drop 5 s)
      else if startsWith s ''warning'' then Some (''warning'', drop 7 s)
      else None)"

definition matchTail :: "string \<Rightarrow> (string \<times> string \<times> string \<times> string) option" where
  "matchTail s =
     (case skipChar (CHR '':'') s of None \<Rightarrow> None | Some s1 \<Rightarrow>
      case digits1 s1 of None \<Rightarrow> None | Some (d1, s2) \<Rightarrow>
      case skipChar (CHR '':'') s2 of None \<Rightarrow> None | Some s3 \<Rightarrow>
      case digits1 s3 of None \<Rightarrow> None | Some (d2, s4) \<Rightarrow>
      case skipChar (CHR '':'') s4 of None \<Rightarrow> None | Some s5 \<Rightarrow>
      case severityWord (dropWhile isSpace s5) of None \<Rightarrow> None | Some (sev, s6) \<Rightarrow>
      case skipChar (CHR '':'') s6 of None \<Rightarrow> None | Some s7 \<Rightarrow>
        if list_ex isLineTerminator (dropWhile isSpace s7) then None
        else Some (d1, d2, sev, dropWhile isSpace s7))"

text \<open>
  The lazy \<^verbatim>\<open>(.*?)\<close>: the shortest prefix without a line terminator after which the rest
  of the pattern matches. \<open>pre\<close> is the prefix consumed so far, reversed.
\<close>

fun matchLine :: "string \<Rightarrow> string \<Rightarrow> (string \<times> string \<times> string \<times> string \<times> string) option" where
  "matchLine pre [] =
     (case matchTail [] of Some t \<Rightarrow> Some (rev pre, t) | None \<Rightarrow> None)"
| "matchLine pre (c # cs) =
     (case matchTail (c # cs) of
        Some t \<Rightarrow> Some (rev pre, t)
      | None \<Rightarrow> if isLineTerminator c then None else matchLine (c # pre) cs)"

text \<open>\<^verbatim>\<open>line.match(...)\<close>: the captures 1 to 5, or \<open>None\<close> for \<^verbatim>\<open>null\<close>.\<close>

definition lineMatch :: "string \<Rightarrow> (string \<times> string \<times> string \<times> string \<times> string) option" where
  "lineMatch l = matchLine [] l"

text \<open>The object pushed for a line that matches, and for one that only mentions a severity.\<close>

definition locatedMessage :: "string \<times> string \<times> string \<times> string \<times> string \<Rightarrow> jsval" where
  "locatedMessage m =
     (case m of (m1, m2, m3, m4, m5) \<Rightarrow>
        JObj [(''filePath'', JStr m1),
              (''line'', JNum (int (parseInt m2))),
              (''column'', JNum (int (parseInt m3))),
              (''severity'', JStr (if m4 = ''error'' then ''error'' else ''warning'')),
              (''message'', JStr m5),
              (''ruleId'', JStr ''g++-compilation'')])"

definition unlocatedMessage :: "string \<Rightarrow> string \<Rightarrow> jsval" where
  "unlocatedMessage sev l =
     JObj [(''filePath'', JStr ''<text>''),
           (''line'', JNum 0),
           (''column'', JNum 0),
           (''severity'', JStr sev),
           (''message'', JStr (trim l)),
           (''ruleId'', JStr ''g++-compilation'')]"

text \<open>The body of \<^verbatim>\<open>errorLines.forEach\<close>: what one line pushes, if anything.\<close>

definition parseErrorLine :: "string \<Rightarrow> jsval option" where
  "parseErrorLine l =
     (case lineMatch l of
        Some m \<Rightarrow> Some (locatedMessage m)
      | None \<Rightarrow>
          if includesStr l ''error:'' then Some (unlocatedMessage ''error'' l)
          else if includesStr l ''warning:'' then Some (unlocatedMessage ''warning'' l)
          else None)"

fun forEachLine :: "string list \<Rightarrow> jsval list" where
  "forEachLine [] = []"
| "forEachLine (l # ls) =
     (case parseErrorLine l of Some d \<Rightarrow> d # forEachLine ls | None \<Rightarrow> forEachLine ls)"

text \<open>\<^verbatim>\<open>formattedMessages\<close> after the \<^verbatim>\<open>if (stderr)\<close> block.\<close>

definition parseStderr :: "string \<Rightarrow> jsval list" where
  "parseStderr stderr = (if stderr \<noteq> [] then forEachLine (splitStr stderr (CHR 0x0A)) else [])"

definition gppNotInstalled :: string where
  "gppNotInstalled =
     ''g++ compiler is not installed or not in your system's PATH. Please install it.''"

definition gppSignature :: "string \<Rightarrow> bool" where
  "gppSignature stderr =
     (stderr \<noteq> [] \<and>
      (includesStr stderr ([CHR 0x27] @ ''g++' is not recognized'') \<or> includesStr stderr ''command not found: g++''))"

text \<open>
  The \<^verbatim>\<open>'close'\<close> handler of \<^verbatim>\<open>runCppAnalysis\<close>. It awaits \<^verbatim>\<open>getAIExplanation\<close> outside any
  \<^verbatim>\<open>try\<close>: if that call rejects, the handler ends without \<^verbatim>\<open>resolve\<close> or \<^verbatim>\<open>reject\<close>.
\<close>

definition cppOnClose ::
    "env \<Rightarrow> string \<Rightarrow> string \<Rightarrow> string \<Rightarrow> int option \<Rightarrow> string \<Rightarrow> world
       \<Rightarrow> analysis_result promise \<times> world" where
  "cppOnClose E code tempCppFilePath tempExecutablePath exitCode stderr w0 =
     (let w1 = unlink E tempCppFilePath w0;
          w = (if exitCode = Some 0 \<or> existsSync w1 tempExecutablePath
               then unlink E tempExecutablePath w1 else w1);
          formattedMessages = parseStderr stderr
      in if gppSignature stderr
         then (Resolved (Failure gppNotInstalled None), w)
         else if length formattedMessages > 0 \<or> exitCode \<noteq> Some 0
         then
           (case getAIExplanation E code ''c++'' formattedMessages w of
              (Inl err, w') \<Rightarrow> (Unsettled, w')
            | (Inr d, w') \<Rightarrow>
                (Resolved (Success (textEntry formattedMessages) code
                            (ai_fixedCode d) (ai_explanation d) (ai_suggestion d)), w'))
         else (Resolved (Success (textEntry formattedMessages) code JNull JNull JNull), w))"

text \<open>The two unlinks of the \<^verbatim>\<open>'error'\<close> handler and of the outer \<^verbatim>\<open>catch\<close> block.\<close>

definition cppCleanup :: "env \<Rightarrow> string \<Rightarrow> string \<Rightarrow> world \<Rightarrow> world" where
  "cppCleanup E tempCppFilePath tempExecutablePath w =
     (let w1 = (if tempCppFilePath \<noteq> [] then unlink E tempCppFilePath w else w)
      in if tempExecutablePath \<noteq> [] then unlink E tempExecutablePath w1 else w1)"

definition cppCatch ::
    "env \<Rightarrow> string \<Rightarrow> string \<Rightarrow> js_error \<Rightarrow> world \<Rightarrow> analysis_result promise \<times> world" where
  "cppCatch E tempCppFilePath tempExecutablePath err w =
     (Resolved (Failure ''Failed to prepare C++ code for analysis.'' (Some (err_message err))),
      cppCleanup E tempCppFilePath tempExecutablePath w)"

definition cppTempFile :: "env \<Rightarrow> string" where
  "cppTempFile E = path_join E (tmpdir E) (''temp_cpp_code_'' @ showNat (Date_now E 0) @ ''.cpp'')"

definition cppTempExecutable :: "env \<Rightarrow> string" where
  "cppTempExecutable E = path_join E (tmpdir E) (''temp_cpp_executable_'' @ showNat (Date_now E 1))"

definition cppArgs :: "env \<Rightarrow> string list" where
  "cppArgs E = [cppTempFile E, ''-o'', cppTempExecutable E, ''-std=c++11'', ''-Wall'', ''-Wextra'']"

definition runCppAnalysis :: "env \<Rightarrow> string \<Rightarrow> world \<Rightarrow> analysis_result promise \<times> world" where
  "runCppAnalysis E code w =
     (let tempCppFilePath = cppTempFile E;
          tempExecutablePath = cppTempExecutable E
      in case writeFile E tempCppFilePath code w of
           (Inl err, w1) \<Rightarrow> cppCatch E tempCppFilePath tempExecutablePath err w1
         | (Inr u, w1) \<Rightarrow>
             (let w2 = emit (Spawn ''g++'' (cppArgs E)) w1
              in case spawn E ''g++'' (cppArgs E) of
                   SpawnThrows err \<Rightarrow> cppCatch E tempCppFilePath tempExecutablePath err w2
                 | ErrorEvent err \<Rightarrow>
                     (Rejected (JsError (''Failed to run g++: '' @ err_message err @
                                         ''. Is g++ installed and in your PATH?'') NoResponse),
                      cppCleanup E tempCppFilePath tempExecutablePath w2)
                 | Close exitCode stdout stderr created \<Rightarrow>
                     cppOnClose E code tempCppFilePath tempExecutablePath exitCode stderr
                       (w2\<lparr>files := files w2 \<union> set created\<rparr>)))"

section \<open>The dispatcher\<close>

definition runCodeAnalysis ::
    "env \<Rightarrow> string \<Rightarrow> string \<Rightarrow> world \<Rightarrow> analysis_result promise \<times> world" where
  "runCodeAnalysis E code language w =
     (let tag = toLowerCase language
      in if tag = ''javascript'' then runEsLintAnalysis E code w
         else if tag = ''python'' then runPylintAnalysis E code w
         else if tag = ''c++'' \<or> tag = ''cpp'' then runCppAnalysis E code w
         else (Resolved (Failure (''Unsupported language for debugging: '' @ language @ ''.'') None),
               w))"

section \<open>Example runs\<close>

text \<open>
  A concrete environment for the examples: a POSIX system at a fixed time, where every
  file operation succeeds and the Gemini service answers with an empty JSON object. The
  API key, the linter's answer, \<^verbatim>\<open>JSON.parse\<close> and the child process are the parameters.
\<close>

definition exampleEnv ::
    "bool \<Rightarrow> (string \<Rightarrow> js_error + lint_result list) \<Rightarrow> (string \<Rightarrow> js_error + jsval)
       \<Rightarrow> proc_event \<Rightarrow> env" where
  "exampleEnv key lint parse ev =
     \<lparr>api_key_present = key,
      sendMessage = (\<lambda>prompt. Inr ''{}''),
      JSON_parse = parse,
      lintText = lint,
      tmpdir = ''/tmp'',
      Date_now = (\<lambda>k. 1700000000000 + k),
      path_sep = ''/'',
      path_resolve = (\<lambda>rel. ''/srv/app/'' @ rel),
      writeFile_error = (\<lambda>p. None),
      unlink_fails = (\<lambda>p. False),
      spawn = (\<lambda>cmd args. ev)\<rparr>"

definition emptyWorld :: world where
  "emptyWorld = \<lparr>files = {}, trace = []\<rparr>"

text \<open>A lint message with the given rule id and text, at line 1, column 5.\<close>

definition exampleMessage :: "string option \<Rightarrow> string \<Rightarrow> lint_message" where
  "exampleMessage rid txt =
     \<lparr>ruleId = rid, severity = 2, message = txt, line = JNum 1, column = JNum 5,
      nodeType = JNull, suggestions = JUndefined\<rparr>"

text \<open>
  What ESLint reports for \<^verbatim>\<open>/* eslint camelcase: "error" */ var semi_colon = 1;\<close>: a rule
  that is not in the table, with a message that contains the table key \<^verbatim>\<open>semi\<close>.
\<close>

definition camelcaseMessage :: lint_message where
  "camelcaseMessage =
     exampleMessage (Some ''camelcase'') ''Identifier 'semi_colon' is not in camel case.''"

text \<open>
  One record of Pylint's JSON output, for \<^verbatim>\<open>import os\<close> alone in a file, and the standard
  output that carries it. \<open>pylintParse\<close> stands for \<^verbatim>\<open>JSON.parse\<close> on the two texts the
  example gives it.
\<close>

definition pylintRecord :: jsval where
  "pylintRecord =
     JObj [(''type'', JStr ''warning''),
           (''module'', JStr ''temp_python_code_1700000000000''),
           (''obj'', JStr []),
           (''line'', JNum 1),
           (''column'', JNum 0),
           (''endLine'', JNum 1),
           (''endColumn'', JNum 9),
           (''path'', JStr ''/tmp/temp_python_code_1700000000000.py''),
           (''symbol'', JStr ''unused-import''),
           (''message'', JStr ''Unused import os''),
           (''message-id'', JStr ''W0611'')]"

definition pylintStdout :: string where
  "pylintStdout = ''[{...unused-import...}]''"

definition pylintParse :: "string \<Rightarrow> js_error + jsval" where
  "pylintParse s =
     (if s = pylintStdout then Inr (JArr [pylintRecord])
      else if s = ''[]'' then Inr (JArr [])
      else Inl (JsError ''Unexpected token'' NoResponse))"




text \<open>What g++ prints for a missing semicolon in the temporary source file.\<close>

definition gppStderr :: string where
  "gppStderr =
     ''/tmp/temp_cpp_code_1700000000000.cpp: In function 'int main()':'' @ [CHR 0x0A] @
     ''/tmp/temp_cpp_code_1700000000000.cpp:1:22: error: expected ';' before '}' token'' @
     [CHR 0x0A]"

text \<open>
  The stderr of the specification's example, a line that mentions an error without a
  location, and a warning of the compiler driver.
\<close>

definition fooStderr :: string where
  "fooStderr = ''foo.cpp: In function 'main': error: expected ';'' @ [CHR 0x27]"


text \<open>A line of the linker that mentions neither \<^verbatim>\<open>error:\<close> nor \<^verbatim>\<open>warning:\<close>.\<close>

definition linkerStderr :: string where
  "linkerStderr = ''/usr/bin/ld: cannot find -lfoo: No such file or directory'' @ [CHR 0x0A]"

text \<open>The diagnostics the Python and the C++ strategy build from these outputs.\<close>

definition pylintDiagnostic :: jsval where
  "pylintDiagnostic =
     JObj [(''type'', JStr ''warning''),
           (''module'', JStr ''temp_python_code_1700000000000''),
           (''symbol'', JStr ''unused-import''),
           (''message'', JStr ''Unused import os''),
           (''line'', JNum 1),
           (''column'', JNum 0),
           (''endLine'', JNum 1),
           (''endColumn'', JNum 9),
           (''errorExplanation'', JStr ''Pylint found a 'warning' type issue: Unused import os.''),
           (''errorSuggestion'',
              JStr (''Review the Python code at line 1, column 0. Consult Pylint '' @
                    ''documentation for rule 'unused-import'' @ [CHR 0x27] @ ''.''))]"

definition gppDiagnostic :: jsval where
  "gppDiagnostic =
     JObj [(''filePath'', JStr ''/tmp/temp_cpp_code_1700000000000.cpp''),
           (''line'', JNum 1),
           (''column'', JNum 22),
           (''severity'', JStr ''error''),
           (''message'', JStr ''expected ';' before '}' token''),
           (''ruleId'', JStr ''g++-compilation'')]"

text \<open>
  An error as the Gemini SDK throws it for a blocked response: it carries the response,
  whose \<^verbatim>\<open>text()\<close> throws again.
\<close>

definition blockedError :: js_error where
  "blockedError =
     JsError ''Candidate was blocked due to SAFETY'' (ResponseTextThrows ''Candidate was blocked due to SAFETY'')"

definition blockedEnv ::
    "(string \<Rightarrow> js_error + lint_result list) \<Rightarrow> (string \<Rightarrow> js_error + jsval) \<Rightarrow> proc_event \<Rightarrow> env" where
  "blockedEnv lint parse ev = (exampleEnv True lint parse ev)\<lparr>sendMessage := (\<lambda>prompt. Inl blockedError)\<rparr>"

section \<open>Vocabulary of the claims\<close>

text \<open>The events a run added to the trace.\<close>

definition newEvents :: "world \<Rightarrow> world \<Rightarrow> event list" where
  "newEvents w w' = drop (length (trace w)) (trace w')"

text \<open>What the augmenter answers, apart from the trace it leaves.\<close>

definition aiOutcome :: "env \<Rightarrow> string \<Rightarrow> string \<Rightarrow> jsval list \<Rightarrow> js_error + ai_data" where
  "aiOutcome E code language msgs = fst (getAIExplanation E code language msgs emptyWorld)"


text \<open>A property of a diagnostic object; \<^verbatim>\<open>undefined\<close> when it has none of that name.\<close>

definition propOf :: "jsval \<Rightarrow> string \<Rightarrow> jsval" where
  "propOf d name = (case getprop d name of Inr v \<Rightarrow> v | Inl e \<Rightarrow> JUndefined)"




text \<open>
  The lookup as the specification words it: the rule identifier matched exactly against
  the table first, otherwise the first table key that the message contains, and the
  generic pair only if neither matches.
\<close>

definition specLookup :: "lint_message \<Rightarrow> explanation_entry" where
  "specLookup msg =
     (case (case ruleId msg of None \<Rightarrow> None | Some r \<Rightarrow> map_of errorExplanations r) of
        Some e \<Rightarrow> e
      | None \<Rightarrow>
          (case firstIncluded (message msg) errorExplanations of
             Some e \<Rightarrow> e
           | None \<Rightarrow> fallbackEntry))"

section \<open>Auxiliary facts\<close>

declare showNat.simps [simp del]

lemma includes_append: "includesStr (p @ k @ q) k"
proof (induction p)
  case Nil
  have "startsWith (k @ q) k" by (induction k) simp_all
  then show ?case by (cases "k @ q") (auto)
next
  case (Cons c p)
  then show ?case by simp
qed

section \<open>Facts about the lookup table\<close>

lemma table_nonempty:
  "(k, e) \<in> set errorExplanations \<Longrightarrow> explanation e \<noteq> [] \<and> suggestion e \<noteq> [] \<and> k \<noteq> []"
  by (auto simp: errorExplanations_def)


lemma firstIncluded_at:
  "i < length t \<Longrightarrow> includesStr m (fst (t ! i)) \<Longrightarrow> \<forall>j<i. \<not> includesStr m (fst (t ! j))
     \<Longrightarrow> firstIncluded m t = Some (snd (t ! i))"
proof (induction t arbitrary: i)
  case Nil
  then show ?case by simp
next
  case (Cons p t)
  obtain k e where p: "p = (k, e)" by (cases p)
  show ?case
  proof (cases i)
    case 0
    with Cons.prems p show ?thesis by simp
  next
    case (Suc n)
    from Cons.prems Suc have "\<not> includesStr m (fst ((p # t) ! 0))" by blast
    then have nk: "\<not> includesStr m k" using p by simp
    have "\<forall>j<n. \<not> includesStr m (fst (t ! j))"
    proof (intro allI impI)
      fix j assume "j < n"
      then have "Suc j < i" using Suc by simp
      with Cons.prems have "\<not> includesStr m (fst ((p # t) ! Suc j))" by blast
      then show "\<not> includesStr m (fst (t ! j))" by simp
    qed
    moreover have "n < length t" "includesStr m (fst (t ! n))"
      using Cons.prems Suc by simp_all
    ultimately have "firstIncluded m t = Some (snd (t ! n))"
      using Cons.IH[of n] by blast
    then show ?thesis using p Suc nk by simp
  qed
qed

lemma firstIncluded_none:
  "\<forall>key\<in>set (map fst t). \<not> includesStr m key \<Longrightarrow> firstIncluded m t = None"
  by (induction t) auto


lemma tableGet_own: "map_of errorExplanations r = Some e \<Longrightarrow> tableGet r = Some (Entry e)"
  by (simp add: tableGet_def)

lemma tableGet_missing:
  "r \<notin> set (map fst errorExplanations) \<Longrightarrow> r \<notin> set objectPrototypeNames \<Longrightarrow> tableGet r = None"
proof -
  assume a: "r \<notin> set (map fst errorExplanations)" and b: "r \<notin> set objectPrototypeNames"
  from a have "map_of errorExplanations r = None" by (simp add: map_of_eq_None_iff)
  with b show ?thesis by (simp add: tableGet_def)
qed

section \<open>Facts about the augmenter and the strategies\<close>

lemma getAIExplanation_no_key:
  "\<not> api_key_present E \<Longrightarrow>
     getAIExplanation E code language msgs w = (Inr all_null, emit (AugmenterCall language) w)"
  by (simp add: getAIExplanation_def Let_def)

lemma getAIExplanation_files: "files (snd (getAIExplanation E code language msgs w)) = files w"
  by (auto simp: getAIExplanation_def Let_def emit_def split: sum.splits)

lemma getAIExplanation_trace:
  "\<exists>rest. trace (snd (getAIExplanation E code language msgs w))
             = trace w @ AugmenterCall language # rest \<and>
           (\<forall>ev\<in>set rest. \<exists>p. ev = ExternalCall p)"
  by (auto simp: getAIExplanation_def Let_def emit_def split: sum.splits)














lemma getAIExplanation_D:
  "getAIExplanation E code language msgs w = (r, w') \<Longrightarrow> r = aiOutcome E code language msgs"
  by (auto simp: aiOutcome_def getAIExplanation_def Let_def split: sum.splits if_splits)

lemma aiOutcome_no_key: "\<not> api_key_present E \<Longrightarrow> aiOutcome E code language msgs = Inr all_null"
  by (simp add: aiOutcome_def getAIExplanation_no_key)

lemma runEsLintAnalysis_fst:
  "fst (runEsLintAnalysis E code w) =
     (case lintText E code of
        Inl err \<Rightarrow> Resolved (eslintFailure err)
      | Inr results \<Rightarrow>
          (let fixedCode =
                 (case results of
                    [] \<Rightarrow> code
                  | r # rs \<Rightarrow> (case lint_output r of Some out \<Rightarrow> out | None \<Rightarrow> code));
               formattedMessages =
                 concat (map (\<lambda>result. map formatLintMessage (messages result)) results)
           in if formattedMessages = []
              then Resolved (Success (textEntry formattedMessages) fixedCode JNull JNull JNull)
              else
                (case aiOutcome E code ''javascript'' formattedMessages of
                   Inl err \<Rightarrow> Resolved (eslintFailure err)
                 | Inr d \<Rightarrow>
                     Resolved (Success (textEntry formattedMessages) fixedCode
                                (ai_fixedCode d) (ai_explanation d) (ai_suggestion d)))))"
  by (auto simp: runEsLintAnalysis_def Let_def split: sum.splits prod.splits list.splits
      option.splits dest!: getAIExplanation_D)

lemma pylintOnClose_fst:
  "fst (pylintOnClose E code p out err w) =
     (if pylintSignature err
      then Resolved (Failure pylintNotInstalled None)
      else if err \<noteq> [] \<and> out = []
      then Resolved (Failure (''Pylint encountered an error: '' @ trim err) None)
      else
        (case bindE (JSON_parse E (orElse out ''[]'')) formatPylintResults of
           Inl parseError \<Rightarrow> Resolved (pylintParseFailure out err parseError)
         | Inr formattedMessages \<Rightarrow>
             (if formattedMessages = []
              then Resolved (Success (textEntry formattedMessages) code JNull JNull JNull)
              else
                (case aiOutcome E code ''python'' formattedMessages of
                   Inl parseError \<Rightarrow> Resolved (pylintParseFailure out err parseError)
                 | Inr d \<Rightarrow>
                     Resolved (Success (textEntry formattedMessages) code
                                (ai_fixedCode d) (ai_explanation d) (ai_suggestion d))))))"
  by (auto simp: pylintOnClose_def Let_def split: sum.splits prod.splits dest!: getAIExplanation_D)

lemma cppOnClose_fst:
  "fst (cppOnClose E code p x c err w) =
     (if gppSignature err then Resolved (Failure gppNotInstalled None)
      else if parseStderr err \<noteq> [] \<or> c \<noteq> Some 0
      then
        (case aiOutcome E code ''c++'' (parseStderr err) of
           Inl e \<Rightarrow> Unsettled
         | Inr d \<Rightarrow>
             Resolved (Success (textEntry (parseStderr err)) code
                        (ai_fixedCode d) (ai_explanation d) (ai_suggestion d)))
      else Resolved (Success (textEntry (parseStderr err)) code JNull JNull JNull))"
  by (auto simp: cppOnClose_def Let_def split: sum.splits prod.splits dest!: getAIExplanation_D)

lemma runPylintAnalysis_fst:
  "fst (runPylintAnalysis E code w) =
     (case writeFile_error E (pylintTempFile E) of
        Some err \<Rightarrow>
          Resolved (Failure ''Failed to prepare Python code for analysis.'' (Some (err_message err)))
      | None \<Rightarrow>
          (case spawn E ''pylint'' (pylintArgs E) of
             SpawnThrows err \<Rightarrow>
               Resolved (Failure ''Failed to prepare Python code for analysis.''
                          (Some (err_message err)))
           | ErrorEvent err \<Rightarrow>
               Rejected (JsError (''Failed to run Pylint: '' @ err_message err @
                                  ''. Is Pylint installed and in your PATH?'') NoResponse)
           | Close c out err created \<Rightarrow>
               fst (pylintOnClose E code (pylintTempFile E) out err emptyWorld)))"
  by (simp add: runPylintAnalysis_def Let_def writeFile_def pylintCatch_def pylintOnClose_fst
      split: option.splits proc_event.splits)

lemma runCppAnalysis_fst:
  "fst (runCppAnalysis E code w) =
     (case writeFile_error E (cppTempFile E) of
        Some err \<Rightarrow>
          Resolved (Failure ''Failed to prepare C++ code for analysis.'' (Some (err_message err)))
      | None \<Rightarrow>
          (case spawn E ''g++'' (cppArgs E) of
             SpawnThrows err \<Rightarrow>
               Resolved (Failure ''Failed to prepare C++ code for analysis.''
                          (Some (err_message err)))
           | ErrorEvent err \<Rightarrow>
               Rejected (JsError (''Failed to run g++: '' @ err_message err @
                                  ''. Is g++ installed and in your PATH?'') NoResponse)
           | Close c out err created \<Rightarrow>
               fst (cppOnClose E code (cppTempFile E) (cppTempExecutable E) c err emptyWorld)))"
  by (simp add: runCppAnalysis_def Let_def writeFile_def cppCatch_def cppOnClose_fst
      split: option.splits proc_event.splits)

section \<open>The example runs, evaluated\<close>

lemmas string_evals =
  isDigit_def isSpace_def isLineTerminator_def digitVal_def parseInt_def digitChar_def
  showInt_def showNat.simps trim_def splitStr_def orElse_def

lemmas regex_evals =
  lineMatch_def matchTail_def skipChar_def digits1_def severityWord_def

lemma example_paths:
  "pylintTempFile (exampleEnv key lint parse ev) = ''/tmp/temp_python_code_1700000000000.py''"
  "cppTempFile (exampleEnv key lint parse ev) = ''/tmp/temp_cpp_code_1700000000000.cpp''"
  "cppTempExecutable (exampleEnv key lint parse ev) = ''/tmp/temp_cpp_executable_1700000000001''"
  by (simp_all add: pylintTempFile_def cppTempFile_def cppTempExecutable_def path_join_def
      exampleEnv_def string_evals)

lemma pylint_example_format: "formatPylintMessage pylintRecord = Inr pylintDiagnostic"
  by (simp add: formatPylintMessage_def pylintRecord_def pylintDiagnostic_def bindE_def string_evals)

lemma gpp_example_parse: "parseStderr gppStderr = [gppDiagnostic]"
  by (simp add: parseStderr_def gppStderr_def gppDiagnostic_def parseErrorLine_def
      locatedMessage_def regex_evals string_evals)


lemma pylint_example_run:
  "fst (runPylintAnalysis (exampleEnv False lint pylintParse (Close (Some 4) pylintStdout [] []))
         code w)
     = Resolved (Success (textEntry [pylintDiagnostic]) code JNull JNull JNull)"
  by (simp add: runPylintAnalysis_def pylintOnClose_def writeFile_def Let_def bindE_def
      getAIExplanation_no_key exampleEnv_def all_null_def pylintParse_def pylintStdout_def
      orElse_def pylint_example_format pylintSignature_def)

lemma gpp_example_run:
  "fst (runCppAnalysis (exampleEnv False lint parse (Close (Some 1) [] gppStderr [])) code w)
     = Resolved (Success (textEntry [gppDiagnostic]) code JNull JNull JNull)"
proof -
  have "\<not> gppSignature gppStderr"
    by (simp add: gppSignature_def gppStderr_def)
  then show ?thesis
    by (simp add: runCppAnalysis_def cppOnClose_def writeFile_def Let_def
        getAIExplanation_no_key exampleEnv_def all_null_def gpp_example_parse)
qed

lemma toLowerCase_examples:
  "toLowerCase ''JavaScript'' = ''javascript''"
  "toLowerCase ''PYTHON'' = ''python''"
  "toLowerCase ''C++'' = ''c++''"
  "toLowerCase ''Java'' = ''java''"
  by (simp_all add: toLowerCase_def toLowerChar_def upperChars_def lowerChars_def)

lemma emit_simps [simp]:
  "trace (emit ev w) = trace w @ [ev]"
  "files (emit ev w) = files w"
  by (simp_all add: emit_def)

lemma unlink_simps [simp]:
  "trace (unlink E p w) = trace w @ [Unlink p]"
  "files (unlink E p w) = (if unlink_fails E p then files w else files w - {p})"
  by (auto simp: unlink_def)

lemma getAIExplanation_snd:
  "\<exists>rest. trace (snd (getAIExplanation E code language msgs w))
             = trace w @ AugmenterCall language # rest \<and>
           (\<forall>ev\<in>set rest. \<exists>p. ev = ExternalCall p) \<and>
           files (snd (getAIExplanation E code language msgs w)) = files w"
  by (auto simp: getAIExplanation_def Let_def split: sum.splits)

lemma cppOnClose_snd:
  "snd (cppOnClose E code p x c err w) =
     (let w1 = unlink E p w;
          w2 = (if c = Some 0 \<or> existsSync w1 x then unlink E x w1 else w1)
      in if gppSignature err then w2
         else if parseStderr err \<noteq> [] \<or> c \<noteq> Some 0
         then snd (getAIExplanation E code ''c++'' (parseStderr err) w2)
         else w2)"
  by (auto simp: cppOnClose_def Let_def split: sum.splits prod.splits)


lemma runCppAnalysis_close:
  "writeFile_error E (cppTempFile E) = None \<Longrightarrow>
   spawn E ''g++'' (cppArgs E) = Close c out err created \<Longrightarrow>
   runCppAnalysis E code w =
     cppOnClose E code (cppTempFile E) (cppTempExecutable E) c err
       ((emit (Spawn ''g++'' (cppArgs E))
          (emit (WriteFile (cppTempFile E) code) (w\<lparr>files := insert (cppTempFile E) (files w)\<rparr>)))
        \<lparr>files := insert (cppTempFile E) (files w) \<union> set created\<rparr>)"
  by (simp add: runCppAnalysis_def Let_def writeFile_def)


lemma tempFile_nonempty [simp]:
  "pylintTempFile E \<noteq> []" "cppTempFile E \<noteq> []" "cppTempExecutable E \<noteq> []"
  by (simp_all add: pylintTempFile_def cppTempFile_def cppTempExecutable_def path_join_def)

lemma parseResponse_unlink_fails [simp]:
  "parseResponse (E\<lparr>unlink_fails := f\<rparr>) text = parseResponse E text"
  by (simp add: parseResponse_def Let_def)

lemma getAIExplanation_unlink_fails [simp]:
  "getAIExplanation (E\<lparr>unlink_fails := f\<rparr>) code language msgs w
     = getAIExplanation E code language msgs w"
proof -
  have "bindE (sendMessage (E\<lparr>unlink_fails := f\<rparr>) p) (parseResponse (E\<lparr>unlink_fails := f\<rparr>))
      = bindE (sendMessage E p) (parseResponse E)" for p
    by (simp add: bindE_def split: sum.splits)
  then show ?thesis
    by (simp add: getAIExplanation_def Let_def split: sum.splits)
qed

lemma unlink_fails_update [simp]:
  "pylintTempFile (E\<lparr>unlink_fails := f\<rparr>) = pylintTempFile E"
  "pylintArgs (E\<lparr>unlink_fails := f\<rparr>) = pylintArgs E"
  "cppTempFile (E\<lparr>unlink_fails := f\<rparr>) = cppTempFile E"
  "cppTempExecutable (E\<lparr>unlink_fails := f\<rparr>) = cppTempExecutable E"
  "cppArgs (E\<lparr>unlink_fails := f\<rparr>) = cppArgs E"
  "aiOutcome (E\<lparr>unlink_fails := f\<rparr>) code language msgs = aiOutcome E code language msgs"
  by (simp_all add: pylintTempFile_def pylintArgs_def cppTempFile_def cppTempExecutable_def
      cppArgs_def path_join_def aiOutcome_def)













section \<open>Facts about the stderr pattern\<close>

lemma startsWith_iff: "startsWith s k \<longleftrightarrow> (\<exists>r. s = k @ r)"
proof (induction s k rule: startsWith.induct)
  case (1 s)
  then show ?case by simp
next
  case (2 k ks)
  then show ?case by simp
next
  case (3 c cs k ks)
  then show ?case by auto
qed

lemma startsWith_drop: "startsWith s k \<Longrightarrow> s = k @ drop (length k) s"
  by (auto simp: startsWith_iff)

lemma skipChar_Some: "skipChar c s = Some r \<longleftrightarrow> s = c # r"
  by (auto simp: skipChar_def split: list.splits)

lemma digits1_Some:
  "digits1 s = Some (d, r) \<Longrightarrow> s = d @ r \<and> d \<noteq> [] \<and> (\<forall>c\<in>set d. isDigit c)"
  by (auto simp: digits1_def split: if_splits dest: set_takeWhileD)

lemma severityWord_Some:
  assumes "severityWord s = Some (sev, r)"
  shows "s = sev @ r \<and> (sev = ''error'' \<or> sev = ''warning'')"
proof (cases "startsWith s ''error''")
  case True
  then obtain r' where "s = ''error'' @ r'" by (auto simp: startsWith_iff)
  with assms True show ?thesis by (simp add: severityWord_def)
next
  case False
  with assms have w: "startsWith s ''warning''"
    by (simp add: severityWord_def split: if_splits)
  then obtain r' where "s = ''warning'' @ r'" by (auto simp: startsWith_iff)
  with assms False show ?thesis by (simp add: severityWord_def)
qed
lemma dropWhile_split: "dropWhile P s = t \<Longrightarrow> \<exists>ws. s = ws @ t \<and> (\<forall>c\<in>set ws. P c)"
  by (rule exI [of _ "takeWhile P s"]) (auto dest: set_takeWhileD)
lemma matchTail_sound:
  assumes "matchTail s = Some (d1, d2, sev, m)"
  shows "\<exists>ws1 ws2.
           s = '':'' @ d1 @ '':'' @ d2 @ '':'' @ ws1 @ sev @ '':'' @ ws2 @ m \<and>
           d1 \<noteq> [] \<and> (\<forall>c\<in>set d1. isDigit c) \<and>
           d2 \<noteq> [] \<and> (\<forall>c\<in>set d2. isDigit c) \<and>
           (\<forall>c\<in>set ws1. isSpace c) \<and> (\<forall>c\<in>set ws2. isSpace c) \<and>
           (sev = ''error'' \<or> sev = ''warning'') \<and>
           (\<forall>c\<in>set m. \<not> isLineTerminator c)"
proof -
  note a0 = assms [unfolded matchTail_def]
  obtain s1 where k1: "skipChar (CHR '':'') s = Some s1"
    using a0 by (cases "skipChar (CHR '':'') s") simp_all
  note a1 = a0 [unfolded k1 option.case]
  obtain x1 s2 where g1': "digits1 s1 = Some (x1, s2)"
    using a1 by (cases "digits1 s1") auto
  note a2 = a1 [unfolded g1' option.case prod.case]
  obtain s3 where k2: "skipChar (CHR '':'') s2 = Some s3"
    using a2 by (cases "skipChar (CHR '':'') s2") simp_all
  note a3 = a2 [unfolded k2 option.case]
  obtain x2 s4 where g2': "digits1 s3 = Some (x2, s4)"
    using a3 by (cases "digits1 s3") auto
  note a4 = a3 [unfolded g2' option.case prod.case]
  obtain s5 where k3: "skipChar (CHR '':'') s4 = Some s5"
    using a4 by (cases "skipChar (CHR '':'') s4") simp_all
  note a5 = a4 [unfolded k3 option.case]
  obtain x3 s6 where sw': "severityWord (dropWhile isSpace s5) = Some (x3, s6)"
    using a5 by (cases "severityWord (dropWhile isSpace s5)") auto
  note a6 = a5 [unfolded sw' option.case prod.case]
  obtain s7 where k4: "skipChar (CHR '':'') s6 = Some s7"
    using a6 by (cases "skipChar (CHR '':'') s6") simp_all
  note a7 = a6 [unfolded k4 option.case]
  have nl: "\<not> list_ex isLineTerminator (dropWhile isSpace s7)"
    using a7 by (cases "list_ex isLineTerminator (dropWhile isSpace s7)") simp_all
  with a7 have eqs: "x1 = d1" "x2 = d2" "x3 = sev" "m = dropWhile isSpace s7"
    by simp_all
  note g1 = g1' [unfolded eqs] and g2 = g2' [unfolded eqs] and sw = sw' [unfolded eqs]
    and me = eqs(4)
  from k1 have e1: "s = CHR '':'' # s1" by (simp add: skipChar_Some)
  from g1 have e2: "s1 = d1 @ s2" "d1 \<noteq> []" "\<forall>c\<in>set d1. isDigit c"
    using digits1_Some by blast+
  from k2 have e3: "s2 = CHR '':'' # s3" by (simp add: skipChar_Some)
  from g2 have e4: "s3 = d2 @ s4" "d2 \<noteq> []" "\<forall>c\<in>set d2. isDigit c"
    using digits1_Some by blast+
  from k3 have e5: "s4 = CHR '':'' # s5" by (simp add: skipChar_Some)
  from sw have e6: "dropWhile isSpace s5 = sev @ s6" "sev = ''error'' \<or> sev = ''warning''"
    using severityWord_Some by blast+
  from k4 have e7: "s6 = CHR '':'' # s7" by (simp add: skipChar_Some)
  obtain ws1 where w1: "s5 = ws1 @ sev @ s6" "\<forall>c\<in>set ws1. isSpace c"
    using dropWhile_split [OF e6(1)] by blast
  obtain ws2 where w2: "s7 = ws2 @ m" "\<forall>c\<in>set ws2. isSpace c"
    using dropWhile_split [OF me [symmetric]] by blast
  have "s = '':'' @ d1 @ '':'' @ d2 @ '':'' @ ws1 @ sev @ '':'' @ ws2 @ m"
    unfolding e1 e2(1) e3 e4(1) e5 w1(1) e7 w2(1) by simp
  moreover have "\<forall>c\<in>set m. \<not> isLineTerminator c"
    using nl me by (simp add: list_ex_iff)
  ultimately show ?thesis
    using e2(2,3) e4(2,3) w1(2) w2(2) e6(2) by blast
qed

lemma isDigit_colon [simp]: "\<not> isDigit (CHR '':'')"
  by (simp add: isDigit_def)

lemma isSpace_simps [simp]:
  "\<not> isSpace (CHR ''e'')" "\<not> isSpace (CHR ''w'')"
  by (simp_all add: isSpace_def)


lemma matchLine_sound:
  "matchLine pre s = Some (p, t) \<Longrightarrow>
     \<exists>q s'. s = q @ s' \<and> p = rev pre @ q \<and> matchTail s' = Some t \<and>
            (\<forall>c\<in>set q. \<not> isLineTerminator c) \<and>
            (\<forall>k<length q. matchTail (drop k s) = None)"
proof (induction s arbitrary: pre)
  case Nil
  then show ?case by (auto split: option.splits)
next
  case (Cons c cs)
  show ?case
  proof (cases "matchTail (c # cs)")
    case (Some t')
    with Cons.prems have "p = rev pre" "t' = t" by simp_all
    with Some show ?thesis by (intro exI [of _ "[]"] exI [of _ "c # cs"]) simp
  next
    case None
    with Cons.prems have nl: "\<not> isLineTerminator c" and r: "matchLine (c # pre) cs = Some (p, t)"
      by (auto split: if_splits)
    from Cons.IH [OF r] obtain q s' where q: "cs = q @ s'" "p = rev (c # pre) @ q"
        "matchTail s' = Some t" "\<forall>c\<in>set q. \<not> isLineTerminator c"
        "\<forall>k<length q. matchTail (drop k cs) = None"
      by blast
    have "\<forall>k<length (c # q). matchTail (drop k (c # cs)) = None"
    proof (intro allI impI)
      fix k assume k: "k < length (c # q)"
      show "matchTail (drop k (c # cs)) = None"
      proof (cases k)
        case 0
        with None show ?thesis by simp
      next
        case (Suc j)
        with k q(5) show ?thesis by simp
      qed
    qed
    with q nl show ?thesis
      by (intro exI [of _ "c # q"] exI [of _ s']) simp
  qed
qed




lemma splitStr_Nil [simp]: "splitStr [] sep = [[]]"
  by (simp add: splitStr_def)

lemma parseErrorLine_Nil [simp]: "parseErrorLine [] = None"
  by (simp add: parseErrorLine_def lineMatch_def matchTail_def skipChar_def)

lemma forEachLine_intro:
  "l \<in> set ls \<Longrightarrow> parseErrorLine l = Some d \<Longrightarrow> d \<in> set (forEachLine ls)"
  by (induction ls) (auto split: option.splits)

lemma lineMatch_Nil [simp]: "lineMatch [] = None"
  by (simp add: lineMatch_def matchTail_def skipChar_def)

lemma cpp_success_diagnostics:
  assumes "writeFile_error E (cppTempFile E) = None"
    and "spawn E ''g++'' (cppArgs E) = Close exitCode out err created"
    and "fst (runCppAnalysis E code w) = Resolved r" and "success r"
  shows "diagnostics r = parseStderr err \<and> map filePath (analysis r) = [''<text>'']"
  using assms
  by (auto simp: runCppAnalysis_fst cppOnClose_fst textEntry_def split: if_splits sum.splits)

section \<open>The claims\<close>




text \<open>
  C2 fails on the code. With an API key configured, the prompt is built before the
  \<^verbatim>\<open>try\<close> block and reads \<^verbatim>\<open>msg.severity.toUpperCase()\<close> on every diagnostic; the diagnostics
  of the Python strategy have no \<^verbatim>\<open>severity\<close>, so \<^verbatim>\<open>getAIExplanation\<close> rejects with a
  \<^verbatim>\<open>TypeError\<close>, and the strategy's \<^verbatim>\<open>catch (parseError)\<close> turns the run into a parse failure,
  where the same run without an API key succeeds with one diagnostic. When the service
  throws an error whose \<^verbatim>\<open>response.text()\<close> throws again, the \<^verbatim>\<open>catch (aiError)\<close> block
  itself throws: the JavaScript strategy then reports that ESLint failed and the promise
  of the C++ strategy never settles.
\<close>

theorem augmenter_rejection_changes_result:
  "fst (getAIExplanation (exampleEnv True (\<lambda>c. Inr []) pylintParse (Close (Some 4) pylintStdout [] []))
         ''import os'' ''python'' [pylintDiagnostic] emptyWorld)
     = Inl (TypeError (''Cannot read properties of undefined (reading '' @ [CHR 0x27] @
                       ''toUpperCase'' @ [CHR 0x27] @ '')'')) \<and>
   fst (runPylintAnalysis (exampleEnv True (\<lambda>c. Inr []) pylintParse (Close (Some 4) pylintStdout [] []))
         ''import os'' emptyWorld)
     = Resolved (Failure ''Failed to parse Pylint output.'' (Some pylintStdout)) \<and>
   fst (runPylintAnalysis (exampleEnv False (\<lambda>c. Inr []) pylintParse (Close (Some 4) pylintStdout [] []))
         ''import os'' emptyWorld)
     = Resolved (Success (textEntry [pylintDiagnostic]) ''import os'' JNull JNull JNull) \<and>
   fst (runEsLintAnalysis
          (blockedEnv (\<lambda>c. Inr [\<lparr>messages = [camelcaseMessage], lint_output = None\<rparr>]) pylintParse
             (Close (Some 1) [] gppStderr []))
          ''var semi_colon = 1;'' emptyWorld)
     = Resolved (Failure ''Failed to run ESLint. Check server logs for details.''
                  (Some ''Candidate was blocked due to SAFETY'')) \<and>
   fst (runCppAnalysis (blockedEnv (\<lambda>c. Inr []) pylintParse (Close (Some 1) [] gppStderr []))
          ''int main() { return 0 }'' emptyWorld)
     = Unsettled"
proof -
  let ?E = "exampleEnv True (\<lambda>c. Inr []) pylintParse (Close (Some 4) pylintStdout [] [])"
  let ?L = "\<lambda>c::string. Inr [\<lparr>messages = [camelcaseMessage], lint_output = None\<rparr>]
              :: js_error + lint_result list"
  let ?B1 = "blockedEnv ?L pylintParse (Close (Some 1) [] gppStderr [])"
  let ?B2 = "blockedEnv (\<lambda>c. Inr []) pylintParse (Close (Some 1) [] gppStderr [])"
  let ?T = "TypeError (''Cannot read properties of undefined (reading '' @ [CHR 0x27] @
                       ''toUpperCase'' @ [CHR 0x27] @ '')'')"
  have il: "issueLine pylintDiagnostic = Inl ?T"
    by (simp add: issueLine_def pylintDiagnostic_def bindE_def string_evals)
  have g: "getAIExplanation ?E ''import os'' ''python'' [pylintDiagnostic] w
      = (Inl ?T, emit (AugmenterCall ''python'') w)" for w
    by (simp add: getAIExplanation_def Let_def buildPrompt_def bindE_def il exampleEnv_def)
  have a: "fst (getAIExplanation ?E ''import os'' ''python'' [pylintDiagnostic] emptyWorld) = Inl ?T"
    by (simp add: g)
  then have ao: "aiOutcome ?E ''import os'' ''python'' [pylintDiagnostic] = Inl ?T"
    by (simp add: aiOutcome_def)
  have ev: "spawn ?E c args = Close (Some 4) pylintStdout [] []"
      "writeFile_error ?E p = None" "JSON_parse ?E = pylintParse" for c args p
    by (simp_all add: exampleEnv_def)
  have ps: "orElse pylintStdout x = pylintStdout"
      "pylintParse pylintStdout = Inr (JArr [pylintRecord])"
      "\<not> pylintSignature []" for x
    by (simp_all add: orElse_def pylintParse_def pylintStdout_def pylintSignature_def)
  have b: "fst (runPylintAnalysis ?E ''import os'' emptyWorld)
      = Resolved (Failure ''Failed to parse Pylint output.'' (Some pylintStdout))"
    by (simp add: runPylintAnalysis_fst pylintOnClose_fst bindE_def ev ps ao
        pylint_example_format pylintParseFailure_def)
  have c: "fst (runPylintAnalysis
          (exampleEnv False (\<lambda>c. Inr []) pylintParse (Close (Some 4) pylintStdout [] []))
          ''import os'' emptyWorld)
      = Resolved (Success (textEntry [pylintDiagnostic]) ''import os'' JNull JNull JNull)"
    by (rule pylint_example_run)
  have bl: "issueLine d = Inr l \<Longrightarrow> aiOutcome (blockedEnv lint parse ev) code language [d]
      = Inl (JsError ''Candidate was blocked due to SAFETY'' NoResponse)"
    for lint parse ev code language d l
    by (simp add: aiOutcome_def getAIExplanation_def Let_def buildPrompt_def bindE_def
        blockedEnv_def exampleEnv_def blockedError_def catchAiError_def)
  have i1: "\<exists>l. issueLine (formatLintMessage camelcaseMessage) = Inr l"
    by (simp add: issueLine_def formatLintMessage_def camelcaseMessage_def exampleMessage_def
        bindE_def Let_def string_evals)
  have i2: "\<exists>l. issueLine gppDiagnostic = Inr l"
    by (simp add: issueLine_def gppDiagnostic_def bindE_def string_evals)
  have lt: "lintText ?B1 ''var semi_colon = 1;''
      = Inr [\<lparr>messages = [camelcaseMessage], lint_output = None\<rparr>]"
    by (simp add: blockedEnv_def exampleEnv_def)
  have d: "fst (runEsLintAnalysis ?B1 ''var semi_colon = 1;'' emptyWorld)
     = Resolved (Failure ''Failed to run ESLint. Check server logs for details.''
                  (Some ''Candidate was blocked due to SAFETY''))"
    using i1 by (auto simp: runEsLintAnalysis_fst lt bl eslintFailure_def)
  have ev2: "spawn ?B2 c args = Close (Some 1) [] gppStderr []" "writeFile_error ?B2 p = None"
    for c args p
    by (simp_all add: blockedEnv_def exampleEnv_def)
  have ns: "\<not> gppSignature gppStderr"
    by (simp add: gppSignature_def gppStderr_def)
  have e: "fst (runCppAnalysis ?B2 ''int main() { return 0 }'' emptyWorld) = Unsettled"
    using i2 by (auto simp: runCppAnalysis_fst cppOnClose_fst ev2 ns gpp_example_parse bl)
  show ?thesis using a b c d e by blast
qed



text \<open>
  C4. \<^verbatim>\<open>runCodeAnalysis\<close> looks at the language tag in lower case only. The tag
  \<^verbatim>\<open>javascript\<close> runs the ESLint strategy and nothing else, \<^verbatim>\<open>python\<close> the Pylint strategy,
  \<^verbatim>\<open>c++\<close> and \<^verbatim>\<open>cpp\<close> the g++ strategy. Any other tag resolves at once to a failure that
  names the language as it was given, and leaves the world as it was: no file is
  written, no process is spawned, no request is sent.
\<close>

theorem runCodeAnalysis_routes:
  "(toLowerCase language = ''javascript'' \<longrightarrow>
      runCodeAnalysis E code language w = runEsLintAnalysis E code w) \<and>
   (toLowerCase language = ''python'' \<longrightarrow>
      runCodeAnalysis E code language w = runPylintAnalysis E code w) \<and>
   (toLowerCase language \<in> {''c++'', ''cpp''} \<longrightarrow>
      runCodeAnalysis E code language w = runCppAnalysis E code w) \<and>
   (toLowerCase language \<notin> {''javascript'', ''python'', ''c++'', ''cpp''} \<longrightarrow>
      (\<exists>r. fst (runCodeAnalysis E code language w) = Resolved r \<and> \<not> success r \<and>
           error r = ''Unsupported language for debugging: '' @ language @ ''.'') \<and>
      snd (runCodeAnalysis E code language w) = w \<and>
      newEvents w (snd (runCodeAnalysis E code language w)) = [])"
  by (auto simp: runCodeAnalysis_def Let_def newEvents_def)

theorem runCodeAnalysis_routes_witness:
  "toLowerCase ''JavaScript'' = ''javascript'' \<and>
   runCodeAnalysis (exampleEnv False (\<lambda>c. Inr []) pylintParse (Close (Some 1) [] gppStderr []))
       ''var x = 1;'' ''JavaScript'' emptyWorld
     = runEsLintAnalysis (exampleEnv False (\<lambda>c. Inr []) pylintParse (Close (Some 1) [] gppStderr []))
         ''var x = 1;'' emptyWorld \<and>
   toLowerCase ''PYTHON'' = ''python'' \<and>
   runCodeAnalysis (exampleEnv False (\<lambda>c. Inr []) pylintParse (Close (Some 4) pylintStdout [] []))
       ''import os'' ''PYTHON'' emptyWorld
     = runPylintAnalysis (exampleEnv False (\<lambda>c. Inr []) pylintParse (Close (Some 4) pylintStdout [] []))
         ''import os'' emptyWorld \<and>
   toLowerCase ''C++'' \<in> {''c++'', ''cpp''} \<and>
   runCodeAnalysis (exampleEnv False (\<lambda>c. Inr []) pylintParse (Close (Some 1) [] gppStderr []))
       ''int main() { return 0 }'' ''C++'' emptyWorld
     = runCppAnalysis (exampleEnv False (\<lambda>c. Inr []) pylintParse (Close (Some 1) [] gppStderr []))
         ''int main() { return 0 }'' emptyWorld \<and>
   toLowerCase ''Java'' \<notin> {''javascript'', ''python'', ''c++'', ''cpp''} \<and>
   runCodeAnalysis (exampleEnv True (\<lambda>c. Inr []) pylintParse (Close (Some 1) [] gppStderr []))
       ''class A {}'' ''Java'' emptyWorld
     = (Resolved (Failure ''Unsupported language for debugging: Java.'' None), emptyWorld)"
proof -
  let ?E = "exampleEnv False (\<lambda>c. Inr []) pylintParse (Close (Some 1) [] gppStderr [])"
  let ?P = "exampleEnv False (\<lambda>c. Inr []) pylintParse (Close (Some 4) pylintStdout [] [])"
  let ?K = "exampleEnv True (\<lambda>c. Inr []) pylintParse (Close (Some 1) [] gppStderr [])"
  have h1: "toLowerCase ''JavaScript'' = ''javascript''"
    and h2: "toLowerCase ''PYTHON'' = ''python''"
    and h3: "toLowerCase ''C++'' \<in> {''c++'', ''cpp''}"
    and h4: "toLowerCase ''Java'' \<notin> {''javascript'', ''python'', ''c++'', ''cpp''}"
    by (simp_all add: toLowerCase_examples)
  have c1: "runCodeAnalysis ?E ''var x = 1;'' ''JavaScript'' emptyWorld
      = runEsLintAnalysis ?E ''var x = 1;'' emptyWorld"
    using runCodeAnalysis_routes [of "''JavaScript''" ?E "''var x = 1;''" emptyWorld] h1 by blast
  have c2: "runCodeAnalysis ?P ''import os'' ''PYTHON'' emptyWorld
      = runPylintAnalysis ?P ''import os'' emptyWorld"
    using runCodeAnalysis_routes [of "''PYTHON''" ?P "''import os''" emptyWorld] h2 by blast
  have c3: "runCodeAnalysis ?E ''int main() { return 0 }'' ''C++'' emptyWorld
      = runCppAnalysis ?E ''int main() { return 0 }'' emptyWorld"
    using runCodeAnalysis_routes [of "''C++''" ?E "''int main() { return 0 }''" emptyWorld] h3
    by blast
  from runCodeAnalysis_routes [of "''Java''" ?K "''class A {}''" emptyWorld] h4
  obtain r where r: "fst (runCodeAnalysis ?K ''class A {}'' ''Java'' emptyWorld) = Resolved r"
      "\<not> success r" "error r = ''Unsupported language for debugging: '' @ ''Java'' @ ''.''"
      and s: "snd (runCodeAnalysis ?K ''class A {}'' ''Java'' emptyWorld) = emptyWorld"
    by blast
  have "details r = None"
    using r(1) by (auto simp: runCodeAnalysis_def Let_def toLowerCase_examples)
  with r(2,3) have "r = Failure ''Unsupported language for debugging: Java.'' None"
    by (cases r) simp_all
  with r(1) s have c4: "runCodeAnalysis ?K ''class A {}'' ''Java'' emptyWorld
      = (Resolved (Failure ''Unsupported language for debugging: Java.'' None), emptyWorld)"
    by (metis prod.collapse)
  show ?thesis using h1 c1 h2 c2 h3 c3 h4 c4 by blast
qed





text \<open>
  C7. Take a run of the C++ strategy in which the compiler process closed and stderr does
  not carry the tool-not-installed signature. The augmenter is called if and only if
  stderr gave at least one diagnostic or the exit code is not 0. Whenever the promise
  resolves, the result is a success, whatever the severities, its fixed code is the input
  code and its diagnostics are those parsed from stderr. The promise does resolve when
  the augmenter was not called or returned; in particular it always does without an API
  key.
\<close>

theorem cpp_augmenter_and_success:
  "writeFile_error E (cppTempFile E) = None \<and>
   spawn E ''g++'' (cppArgs E) = Close exitCode out err created \<and>
   \<not> gppSignature err
   \<longrightarrow> ((AugmenterCall ''c++'' \<in> set (newEvents w (snd (runCppAnalysis E code w))))
           \<longleftrightarrow> (length (parseStderr err) > 0 \<or> exitCode \<noteq> Some 0)) \<and>
       (\<forall>r. fst (runCppAnalysis E code w) = Resolved r
           \<longrightarrow> success r \<and> fixedCode r = code \<and> diagnostics r = parseStderr err) \<and>
       (parseStderr err = [] \<and> exitCode = Some 0
           \<longrightarrow> fst (runCppAnalysis E code w)
                 = Resolved (Success (textEntry []) code JNull JNull JNull)) \<and>
       (\<forall>d. aiOutcome E code ''c++'' (parseStderr err) = Inr d \<and>
            (parseStderr err \<noteq> [] \<or> exitCode \<noteq> Some 0)
           \<longrightarrow> fst (runCppAnalysis E code w)
                 = Resolved (Success (textEntry (parseStderr err)) code
                              (ai_fixedCode d) (ai_explanation d) (ai_suggestion d))) \<and>
       (\<not> api_key_present E \<longrightarrow> (\<exists>r. fst (runCppAnalysis E code w) = Resolved r))"
proof (intro impI)
  assume a: "writeFile_error E (cppTempFile E) = None \<and>
   spawn E ''g++'' (cppArgs E) = Close exitCode out err created \<and>
   \<not> gppSignature err"
  let ?w0 = "(emit (Spawn ''g++'' (cppArgs E))
          (emit (WriteFile (cppTempFile E) code) (w\<lparr>files := insert (cppTempFile E) (files w)\<rparr>)))
        \<lparr>files := insert (cppTempFile E) (files w) \<union> set created\<rparr>"
  let ?w1 = "unlink E (cppTempFile E) ?w0"
  let ?w2 = "if exitCode = Some 0 \<or> existsSync ?w1 (cppTempExecutable E)
             then unlink E (cppTempExecutable E) ?w1 else ?w1"
  let ?cond = "parseStderr err \<noteq> [] \<or> exitCode \<noteq> Some 0"
  have run: "runCppAnalysis E code w
      = cppOnClose E code (cppTempFile E) (cppTempExecutable E) exitCode err ?w0"
    using a by (simp add: runCppAnalysis_close)
  have f: "fst (runCppAnalysis E code w) =
     (if ?cond
      then (case aiOutcome E code ''c++'' (parseStderr err) of
              Inl e \<Rightarrow> Unsettled
            | Inr d \<Rightarrow> Resolved (Success (textEntry (parseStderr err)) code
                          (ai_fixedCode d) (ai_explanation d) (ai_suggestion d)))
      else Resolved (Success (textEntry (parseStderr err)) code JNull JNull JNull))"
    using a by (simp add: run cppOnClose_fst)
  have s: "snd (runCppAnalysis E code w) =
     (if ?cond then snd (getAIExplanation E code ''c++'' (parseStderr err) ?w2) else ?w2)"
    using a by (simp add: run cppOnClose_snd Let_def)
  have pre: "\<exists>pre. trace ?w2 = trace w @ pre \<and> AugmenterCall ''c++'' \<notin> set pre"
    by auto
  then obtain pre where pre: "trace ?w2 = trace w @ pre" "AugmenterCall ''c++'' \<notin> set pre"
    by blast
  have t1: "(AugmenterCall ''c++'' \<in> set (newEvents w (snd (runCppAnalysis E code w))))
           \<longleftrightarrow> (length (parseStderr err) > 0 \<or> exitCode \<noteq> Some 0)"
  proof (cases ?cond)
    case True
    obtain rest where "trace (snd (getAIExplanation E code ''c++'' (parseStderr err) ?w2))
        = trace ?w2 @ AugmenterCall ''c++'' # rest"
      using getAIExplanation_snd [of E code "''c++''" "parseStderr err" ?w2] by blast
    then have "newEvents w (snd (runCppAnalysis E code w)) = pre @ AugmenterCall ''c++'' # rest"
      using True s pre(1) unfolding newEvents_def by simp
    with True show ?thesis by auto
  next
    case False
    then have "newEvents w (snd (runCppAnalysis E code w)) = pre"
      using s pre(1) unfolding newEvents_def by simp
    with False pre(2) show ?thesis by auto
  qed
  have t2: "\<forall>r. fst (runCppAnalysis E code w) = Resolved r
           \<longrightarrow> success r \<and> fixedCode r = code \<and> diagnostics r = parseStderr err"
    unfolding f by (auto simp: textEntry_def split: sum.splits if_splits)
  have t3: "parseStderr err = [] \<and> exitCode = Some 0
           \<longrightarrow> fst (runCppAnalysis E code w)
                 = Resolved (Success (textEntry []) code JNull JNull JNull)"
    unfolding f by simp
  have t4: "\<forall>d. aiOutcome E code ''c++'' (parseStderr err) = Inr d \<and>
            (parseStderr err \<noteq> [] \<or> exitCode \<noteq> Some 0)
           \<longrightarrow> fst (runCppAnalysis E code w)
                 = Resolved (Success (textEntry (parseStderr err)) code
                              (ai_fixedCode d) (ai_explanation d) (ai_suggestion d))"
    unfolding f by auto
  have t5: "\<not> api_key_present E \<longrightarrow> (\<exists>r. fst (runCppAnalysis E code w) = Resolved r)"
    unfolding f by (simp add: aiOutcome_no_key)
  from t1 t2 t3 t4 t5 show "((AugmenterCall ''c++'' \<in> set (newEvents w (snd (runCppAnalysis E code w))))
           \<longleftrightarrow> (length (parseStderr err) > 0 \<or> exitCode \<noteq> Some 0)) \<and>
       (\<forall>r. fst (runCppAnalysis E code w) = Resolved r
           \<longrightarrow> success r \<and> fixedCode r = code \<and> diagnostics r = parseStderr err) \<and>
       (parseStderr err = [] \<and> exitCode = Some 0
           \<longrightarrow> fst (runCppAnalysis E code w)
                 = Resolved (Success (textEntry []) code JNull JNull JNull)) \<and>
       (\<forall>d. aiOutcome E code ''c++'' (parseStderr err) = Inr d \<and>
            (parseStderr err \<noteq> [] \<or> exitCode \<noteq> Some 0)
           \<longrightarrow> fst (runCppAnalysis E code w)
                 = Resolved (Success (textEntry (parseStderr err)) code
                              (ai_fixedCode d) (ai_explanation d) (ai_suggestion d))) \<and>
       (\<not> api_key_present E \<longrightarrow> (\<exists>r. fst (runCppAnalysis E code w) = Resolved r))"
    by blast
qed

theorem cpp_augmenter_and_success_witness:
  "AugmenterCall ''c++''
     \<in> set (newEvents emptyWorld (snd (runCppAnalysis
          (exampleEnv False (\<lambda>c. Inr []) pylintParse (Close (Some 1) [] gppStderr []))
          ''int main() { return 0 }'' emptyWorld))) \<and>
   fst (runCppAnalysis (exampleEnv False (\<lambda>c. Inr []) pylintParse (Close (Some 1) [] gppStderr []))
          ''int main() { return 0 }'' emptyWorld)
     = Resolved (Success (textEntry [gppDiagnostic]) ''int main() { return 0 }''
                  JNull JNull JNull) \<and>
   propOf gppDiagnostic ''severity'' = JStr ''error'' \<and>
   AugmenterCall ''c++''
     \<notin> set (newEvents emptyWorld (snd (runCppAnalysis
          (exampleEnv False (\<lambda>c. Inr []) pylintParse
             (Close (Some 0) [] [] [''/tmp/temp_cpp_executable_1700000000001'']))
          ''int main() { return 0; }'' emptyWorld))) \<and>
   fst (runCppAnalysis (exampleEnv False (\<lambda>c. Inr []) pylintParse
             (Close (Some 0) [] [] [''/tmp/temp_cpp_executable_1700000000001'']))
          ''int main() { return 0; }'' emptyWorld)
     = Resolved (Success (textEntry []) ''int main() { return 0; }'' JNull JNull JNull) \<and>
   parseStderr linkerStderr = [] \<and>
   AugmenterCall ''c++''
     \<in> set (newEvents emptyWorld (snd (runCppAnalysis
          (exampleEnv False (\<lambda>c. Inr []) pylintParse (Close (Some 1) [] linkerStderr []))
          ''int main() { return 0; }'' emptyWorld))) \<and>
   fst (runCppAnalysis (exampleEnv False (\<lambda>c. Inr []) pylintParse
             (Close (Some 1) [] linkerStderr []))
          ''int main() { return 0; }'' emptyWorld)
     = Resolved (Success (textEntry []) ''int main() { return 0; }'' JNull JNull JNull)"
proof -
  let ?E2 = "exampleEnv False (\<lambda>c. Inr []) pylintParse (Close (Some 1) [] linkerStderr [])"
  let ?E1 = "exampleEnv False (\<lambda>c. Inr []) pylintParse (Close (Some 1) [] gppStderr [])"
  let ?E0 = "exampleEnv False (\<lambda>c. Inr []) pylintParse
               (Close (Some 0) [] [] [''/tmp/temp_cpp_executable_1700000000001''])"
  let ?c1 = "''int main() { return 0 }''"
  let ?c0 = "''int main() { return 0; }''"
  have h1: "writeFile_error ?E1 (cppTempFile ?E1) = None \<and>
            spawn ?E1 ''g++'' (cppArgs ?E1) = Close (Some 1) [] gppStderr [] \<and>
            \<not> gppSignature gppStderr"
    by (simp add: exampleEnv_def gppSignature_def gppStderr_def)
  have h0: "writeFile_error ?E0 (cppTempFile ?E0) = None \<and>
            spawn ?E0 ''g++'' (cppArgs ?E0)
              = Close (Some 0) [] [] [''/tmp/temp_cpp_executable_1700000000001''] \<and>
            \<not> gppSignature []"
    by (simp add: exampleEnv_def gppSignature_def)
  have p1: "parseStderr gppStderr = [gppDiagnostic]" by (rule gpp_example_parse)
  have p0: "parseStderr [] = []" by (simp add: parseStderr_def)
  have k: "\<not> api_key_present ?E1" by (simp add: exampleEnv_def)
  have ao: "aiOutcome ?E1 ?c1 ''c++'' (parseStderr gppStderr) = Inr all_null \<and>
            (parseStderr gppStderr \<noteq> [] \<or> Some 1 \<noteq> Some (0::int))"
    using k by (simp add: aiOutcome_no_key)
  note T1 = cpp_augmenter_and_success
      [of ?E1 "Some 1" "[]" gppStderr "[]" emptyWorld ?c1]
  note T0 = cpp_augmenter_and_success
      [of ?E0 "Some 0" "[]" "[]" "[''/tmp/temp_cpp_executable_1700000000001'']" emptyWorld ?c0]
  have a1: "AugmenterCall ''c++'' \<in> set (newEvents emptyWorld (snd (runCppAnalysis ?E1 ?c1 emptyWorld)))"
    using T1 h1 p1 by simp
  have "fst (runCppAnalysis ?E1 ?c1 emptyWorld)
      = Resolved (Success (textEntry (parseStderr gppStderr)) ?c1
                   (ai_fixedCode all_null) (ai_explanation all_null) (ai_suggestion all_null))"
    using T1 h1 ao by blast
  then have b1: "fst (runCppAnalysis ?E1 ?c1 emptyWorld)
      = Resolved (Success (textEntry [gppDiagnostic]) ?c1 JNull JNull JNull)"
    by (simp add: p1 all_null_def)
  have s1: "propOf gppDiagnostic ''severity'' = JStr ''error''"
    by (simp add: propOf_def gppDiagnostic_def)
  have a0: "AugmenterCall ''c++'' \<notin> set (newEvents emptyWorld (snd (runCppAnalysis ?E0 ?c0 emptyWorld)))"
    using T0 h0 p0 by simp
  have b0: "fst (runCppAnalysis ?E0 ?c0 emptyWorld)
      = Resolved (Success (textEntry []) ?c0 JNull JNull JNull)"
    using T0 h0 p0 by blast
  have h2: "writeFile_error ?E2 (cppTempFile ?E2) = None \<and>
            spawn ?E2 ''g++'' (cppArgs ?E2) = Close (Some 1) [] linkerStderr [] \<and>
            \<not> gppSignature linkerStderr"
    by (simp add: exampleEnv_def gppSignature_def linkerStderr_def)
  have p2: "parseStderr linkerStderr = []"
    by (simp add: parseStderr_def linkerStderr_def parseErrorLine_def regex_evals string_evals)
  have ao2: "aiOutcome ?E2 ?c0 ''c++'' (parseStderr linkerStderr) = Inr all_null \<and>
            (parseStderr linkerStderr \<noteq> [] \<or> Some 1 \<noteq> Some (0::int))"
    by (simp add: aiOutcome_no_key exampleEnv_def)
  note T2 = cpp_augmenter_and_success
      [of ?E2 "Some 1" "[]" linkerStderr "[]" emptyWorld ?c0]
  have a2: "AugmenterCall ''c++'' \<in> set (newEvents emptyWorld (snd (runCppAnalysis ?E2 ?c0 emptyWorld)))"
    using T2 h2 by simp
  have "fst (runCppAnalysis ?E2 ?c0 emptyWorld)
      = Resolved (Success (textEntry (parseStderr linkerStderr)) ?c0
                   (ai_fixedCode all_null) (ai_explanation all_null) (ai_suggestion all_null))"
    using T2 h2 ao2 by blast
  then have b2: "fst (runCppAnalysis ?E2 ?c0 emptyWorld)
      = Resolved (Success (textEntry []) ?c0 JNull JNull JNull)"
    by (simp add: p2 all_null_def)
  show ?thesis using a1 b1 s1 a0 b0 p2 a2 b2 by blast
qed

text \<open>
  C8, as the code has it. The pair for a lint message is chosen as follows. A rule
  identifier that is a key of the table selects that entry. A message without a rule
  identifier (\<^verbatim>\<open>null\<close> or empty) selects the first entry, in table order, whose key the
  message text contains, and the generic pair when it contains none. A rule identifier
  that is not a key of the table (and not the name of a property inherited from
  \<^verbatim>\<open>Object.prototype\<close>) selects the generic pair, whatever the message contains: the
  substring match is guarded by \<^verbatim>\<open>!msg.ruleId\<close>. The chosen pair becomes the diagnostic's
  \<^verbatim>\<open>errorExplanation\<close> and \<^verbatim>\<open>errorSuggestion\<close>.
\<close>

theorem explanationFor_lookup:
  "(ruleId msg = Some r \<and> map_of errorExplanations r = Some e \<longrightarrow> explanationFor msg = Entry e) \<and>
   (\<not> ruleIdTruthy (ruleId msg) \<and> i < length errorExplanations \<and>
      includesStr (message msg) (fst (errorExplanations ! i)) \<and>
      (\<forall>j<i. \<not> includesStr (message msg) (fst (errorExplanations ! j)))
      \<longrightarrow> explanationFor msg = Entry (snd (errorExplanations ! i))) \<and>
   (\<not> ruleIdTruthy (ruleId msg) \<and>
      (\<forall>key\<in>set (map fst errorExplanations). \<not> includesStr (message msg) key)
      \<longrightarrow> explanationFor msg = Entry fallbackEntry) \<and>
   (ruleId msg = Some r \<and> r \<noteq> [] \<and> r \<notin> set (map fst errorExplanations) \<and>
      r \<notin> set objectPrototypeNames
      \<longrightarrow> explanationFor msg = Entry fallbackEntry) \<and>
   getprop (formatLintMessage msg) ''errorExplanation'' = Inr (dataExplanation (explanationFor msg)) \<and>
   getprop (formatLintMessage msg) ''errorSuggestion'' = Inr (dataSuggestion (explanationFor msg))"
proof (intro conjI impI)
  assume a: "ruleId msg = Some r \<and> map_of errorExplanations r = Some e"
  then have "(r, e) \<in> set errorExplanations" by (auto dest: map_of_SomeD)
  then have "r \<noteq> []" using table_nonempty by blast
  with a show "explanationFor msg = Entry e"
    by (simp add: explanationFor_def ruleLookup_def ruleIdTruthy_def tableGet_own)
next
  assume "\<not> ruleIdTruthy (ruleId msg) \<and> i < length errorExplanations \<and>
      includesStr (message msg) (fst (errorExplanations ! i)) \<and>
      (\<forall>j<i. \<not> includesStr (message msg) (fst (errorExplanations ! j)))"
  then show "explanationFor msg = Entry (snd (errorExplanations ! i))"
    using firstIncluded_at [of i errorExplanations "message msg"]
    by (simp add: explanationFor_def ruleLookup_def ruleIdTruthy_def split: option.splits)
next
  assume "\<not> ruleIdTruthy (ruleId msg) \<and>
      (\<forall>key\<in>set (map fst errorExplanations). \<not> includesStr (message msg) key)"
  then show "explanationFor msg = Entry fallbackEntry"
    by (simp add: explanationFor_def ruleLookup_def ruleIdTruthy_def firstIncluded_none
        split: option.splits)
next
  assume "ruleId msg = Some r \<and> r \<noteq> [] \<and> r \<notin> set (map fst errorExplanations) \<and>
      r \<notin> set objectPrototypeNames"
  then show "explanationFor msg = Entry fallbackEntry"
    by (simp add: explanationFor_def ruleLookup_def ruleIdTruthy_def tableGet_missing)
next
  show "getprop (formatLintMessage msg) ''errorExplanation'' = Inr (dataExplanation (explanationFor msg))"
    by (simp add: formatLintMessage_def Let_def)
next
  show "getprop (formatLintMessage msg) ''errorSuggestion'' = Inr (dataSuggestion (explanationFor msg))"
    by (simp add: formatLintMessage_def Let_def)
qed

theorem explanationFor_lookup_witness:
  "map_of errorExplanations ''semi'' = Some (snd (errorExplanations ! 6)) \<and>
   explanationFor (exampleMessage (Some ''semi'') ''Missing semicolon.'')
     = Entry (snd (errorExplanations ! 6)) \<and>
   fst (errorExplanations ! 1) = ''Unexpected token'' \<and>
   explanationFor (exampleMessage None ''Parsing error: Unexpected token ;'')
     = Entry (snd (errorExplanations ! 1)) \<and>
   explanationFor (exampleMessage None ''Parsing error: Invalid regular expression flag'')
     = Entry fallbackEntry \<and>
   explanationFor camelcaseMessage = Entry fallbackEntry"
proof -
  let ?m1 = "exampleMessage (Some ''semi'') ''Missing semicolon.''"
  let ?m2 = "exampleMessage None ''Parsing error: Unexpected token ;''"
  let ?m3 = "exampleMessage None ''Parsing error: Invalid regular expression flag''"
  have keys: "map fst errorExplanations =
      [''Unterminated string constant'', ''Unexpected token'', ''Missing semicolon'',
       ''Unexpected end of input'', ''no-undef'', ''no-unused-vars'', ''semi'', ''indent'',
       ''quotes'', ''no-trailing-spaces'', ''eol-last'']"
    by (simp add: errorExplanations_def)
  have len: "length errorExplanations = 11"
    by (simp add: errorExplanations_def)
  have k0: "fst (errorExplanations ! 0) = ''Unterminated string constant''"
    and k1: "fst (errorExplanations ! 1) = ''Unexpected token''"
    by (simp_all add: errorExplanations_def)
  have h1: "ruleId ?m1 = Some ''semi'' \<and>
            map_of errorExplanations ''semi'' = Some (snd (errorExplanations ! 6))"
    by (simp add: errorExplanations_def exampleMessage_def)
  have c1: "explanationFor ?m1 = Entry (snd (errorExplanations ! 6))"
    using explanationFor_lookup [of ?m1 "''semi''" "snd (errorExplanations ! 6)"] h1 by blast
  have "\<not> includesStr (message ?m2) (fst (errorExplanations ! 0))"
    unfolding k0 by (simp add: exampleMessage_def)
  then have "\<forall>j<1. \<not> includesStr (message ?m2) (fst (errorExplanations ! j))"
    by simp
  moreover have "includesStr (message ?m2) (fst (errorExplanations ! 1))"
    unfolding k1 by (simp add: exampleMessage_def)
  moreover have "\<not> ruleIdTruthy (ruleId ?m2)" "\<not> ruleIdTruthy (ruleId ?m3)"
    by (simp_all add: exampleMessage_def ruleIdTruthy_def)
  moreover have "1 < length errorExplanations"
    using len by simp
  ultimately have h2: "\<not> ruleIdTruthy (ruleId ?m2) \<and> 1 < length errorExplanations \<and>
      includesStr (message ?m2) (fst (errorExplanations ! 1)) \<and>
      (\<forall>j<1. \<not> includesStr (message ?m2) (fst (errorExplanations ! j)))"
    and n3: "\<not> ruleIdTruthy (ruleId ?m3)"
    by blast+
  have c2: "explanationFor ?m2 = Entry (snd (errorExplanations ! 1))"
    using explanationFor_lookup [of ?m2 _ _ 1] h2 by blast
  have "\<forall>key\<in>set (map fst errorExplanations). \<not> includesStr (message ?m3) key"
    unfolding keys by (simp add: exampleMessage_def)
  with n3 have h3: "\<not> ruleIdTruthy (ruleId ?m3) \<and>
      (\<forall>key\<in>set (map fst errorExplanations). \<not> includesStr (message ?m3) key)"
    by blast
  have c3: "explanationFor ?m3 = Entry fallbackEntry"
    using explanationFor_lookup [of ?m3] h3 by blast
  have h4: "ruleId camelcaseMessage = Some ''camelcase'' \<and> ''camelcase'' \<noteq> [] \<and>
            ''camelcase'' \<notin> set (map fst errorExplanations) \<and>
            ''camelcase'' \<notin> set objectPrototypeNames"
    unfolding keys by (simp add: objectPrototypeNames_def camelcaseMessage_def exampleMessage_def)
  have c4: "explanationFor camelcaseMessage = Entry fallbackEntry"
    using explanationFor_lookup [of camelcaseMessage "''camelcase''"] h4 by blast
  show ?thesis using h1 c1 k1 c2 c3 c4 by blast
qed

text \<open>
  C8, as the specification words it, fails: for the rule \<^verbatim>\<open>camelcase\<close>, which is not in
  the table, and a message that contains the key \<^verbatim>\<open>semi\<close>, the specification's lookup
  gives the entry of \<^verbatim>\<open>semi\<close> and the code gives the generic pair.
\<close>

theorem explanationFor_counterexample:
  "ruleId camelcaseMessage = Some ''camelcase'' \<and>
   map_of errorExplanations ''camelcase'' = None \<and>
   includesStr (message camelcaseMessage) ''semi'' \<and>
   specLookup camelcaseMessage = the (map_of errorExplanations ''semi'') \<and>
   explanationFor camelcaseMessage = Entry fallbackEntry \<and>
   explanationFor camelcaseMessage \<noteq> Entry (specLookup camelcaseMessage)"
  by (simp add: camelcaseMessage_def exampleMessage_def explanationFor_def ruleLookup_def ruleIdTruthy_def
      tableGet_def specLookup_def errorExplanations_def objectPrototypeNames_def fallbackEntry_def)

text \<open>
  C9. When ESLint finds no violation in the code (every \<^verbatim>\<open>LintResult\<close> has an empty message
  list and, no fix having been applied, no \<^verbatim>\<open>output\<close>), the JavaScript strategy resolves
  to a success whose fixed code is the input code, whose diagnostics list is empty and
  whose three AI fields are \<^verbatim>\<open>null\<close>; the world is unchanged, so the augmenter was not
  called.
\<close>

theorem eslint_clean_code:
  "lintText E code = Inr results \<and>
   (\<forall>res\<in>set results. messages res = [] \<and> lint_output res = None)
   \<longrightarrow> runEsLintAnalysis E code w
         = (Resolved (Success [\<lparr>filePath = ''<text>'', entry_messages = []\<rparr>] code
                       JNull JNull JNull), w) \<and>
       success (Success [\<lparr>filePath = ''<text>'', entry_messages = []\<rparr>] code JNull JNull JNull) \<and>
       diagnostics (Success [\<lparr>filePath = ''<text>'', entry_messages = []\<rparr>] code
                      JNull JNull JNull) = [] \<and>
       (\<forall>language. AugmenterCall language
           \<notin> set (newEvents w (snd (runEsLintAnalysis E code w))))"
proof (intro impI)
  assume a: "lintText E code = Inr results \<and>
   (\<forall>res\<in>set results. messages res = [] \<and> lint_output res = None)"
  then have m: "concat (map (\<lambda>result. map formatLintMessage (messages result)) results) = []"
    by simp
  from a have f: "(case results of [] \<Rightarrow> code
                   | r # rs \<Rightarrow> (case lint_output r of Some out \<Rightarrow> out | None \<Rightarrow> code)) = code"
    by (cases results) simp_all
  from a have "runEsLintAnalysis E code w
      = (Resolved (Success [\<lparr>filePath = ''<text>'', entry_messages = []\<rparr>] code
                    JNull JNull JNull), w)"
    by (simp add: runEsLintAnalysis_def Let_def m f textEntry_def del: concat_eq_Nil_conv)
  then show "runEsLintAnalysis E code w
         = (Resolved (Success [\<lparr>filePath = ''<text>'', entry_messages = []\<rparr>] code
                       JNull JNull JNull), w) \<and>
       success (Success [\<lparr>filePath = ''<text>'', entry_messages = []\<rparr>] code JNull JNull JNull) \<and>
       diagnostics (Success [\<lparr>filePath = ''<text>'', entry_messages = []\<rparr>] code
                      JNull JNull JNull) = [] \<and>
       (\<forall>language. AugmenterCall language
           \<notin> set (newEvents w (snd (runEsLintAnalysis E code w))))"
    by (simp add: newEvents_def)
qed

theorem eslint_clean_code_witness:
  "lintText (exampleEnv True (\<lambda>c. Inr [\<lparr>messages = [], lint_output = None\<rparr>]) pylintParse
              (Close (Some 1) [] gppStderr [])) ''var x = 1;''
     = Inr [\<lparr>messages = [], lint_output = None\<rparr>] \<and>
   runEsLintAnalysis (exampleEnv True (\<lambda>c. Inr [\<lparr>messages = [], lint_output = None\<rparr>]) pylintParse
                        (Close (Some 1) [] gppStderr [])) ''var x = 1;'' emptyWorld
     = (Resolved (Success [\<lparr>filePath = ''<text>'', entry_messages = []\<rparr>] ''var x = 1;''
                   JNull JNull JNull), emptyWorld)"
proof -
  let ?E = "exampleEnv True (\<lambda>c. Inr [\<lparr>messages = [], lint_output = None\<rparr>]) pylintParse
              (Close (Some 1) [] gppStderr [])"
  have h: "lintText ?E ''var x = 1;'' = Inr [\<lparr>messages = [], lint_output = None\<rparr>]"
    by (simp add: exampleEnv_def)
  have q: "\<forall>res\<in>set [\<lparr>messages = [], lint_output = None\<rparr>].
             messages res = [] \<and> lint_output res = None"
    by simp
  show ?thesis
    using eslint_clean_code [of ?E "''var x = 1;''" "[\<lparr>messages = [], lint_output = None\<rparr>]"
        emptyWorld] h q
    by blast
qed

text \<open>
  C10. The diagnostic of a stderr line that matches the location pattern has as its
  \<^verbatim>\<open>filePath\<close> the first capture: the shortest prefix of the line after which the rest of
  the pattern matches, which is the path g++ printed, that of the temporary source
  file. A diagnostic of a line that does not match has the placeholder \<^verbatim>\<open><text>\<close>, as has
  the single entry of the analysis. When the run resolves to a success, the diagnostic is
  in the result, captured path included.
\<close>

theorem located_filePath:
  "(lineMatch l = Some (p, d1, d2, sev, m)
      \<longrightarrow> (\<exists>d. parseErrorLine l = Some d \<and> propOf d ''filePath'' = JStr p) \<and>
          (\<exists>rest. l = p @ '':'' @ rest) \<and>
          (\<forall>k<length p. matchTail (drop k l) = None)) \<and>
   (lineMatch l = None \<and> parseErrorLine l = Some d' \<longrightarrow> propOf d' ''filePath'' = JStr ''<text>'') \<and>
   (writeFile_error E (cppTempFile E) = None \<and>
    spawn E ''g++'' (cppArgs E) = Close exitCode out err created \<and>
    fst (runCppAnalysis E code w) = Resolved r \<and> success r \<and>
    l \<in> set (splitStr err (CHR 0x0A)) \<and> lineMatch l = Some (p, d1, d2, sev, m)
      \<longrightarrow> (\<exists>d\<in>set (diagnostics r). propOf d ''filePath'' = JStr p) \<and>
          map filePath (analysis r) = [''<text>''])"
proof -
  have loc: "parseErrorLine l = Some (locatedMessage (p, d1, d2, sev, m)) \<and>
             propOf (locatedMessage (p, d1, d2, sev, m)) ''filePath'' = JStr p"
    if "lineMatch l = Some (p, d1, d2, sev, m)"
    using that by (simp add: parseErrorLine_def locatedMessage_def propOf_def)
  have t1: "lineMatch l = Some (p, d1, d2, sev, m)
      \<longrightarrow> (\<exists>d. parseErrorLine l = Some d \<and> propOf d ''filePath'' = JStr p) \<and>
          (\<exists>rest. l = p @ '':'' @ rest) \<and>
          (\<forall>k<length p. matchTail (drop k l) = None)"
  proof (intro impI)
    assume a: "lineMatch l = Some (p, d1, d2, sev, m)"
    then have "matchLine [] l = Some (p, d1, d2, sev, m)" by (simp add: lineMatch_def)
    from matchLine_sound [OF this] obtain q s' where q0: "l = q @ s'" "p = rev [] @ q"
        "matchTail s' = Some (d1, d2, sev, m)" "\<forall>k<length q. matchTail (drop k l) = None"
      by blast
    then have q: "l = q @ s'" "p = q" "matchTail s' = Some (d1, d2, sev, m)"
        "\<forall>k<length p. matchTail (drop k l) = None"
      by simp_all
    from matchTail_sound [OF q(3)] obtain rest where "s' = '':'' @ rest" by blast
    then have "l = p @ '':'' @ rest" using q(1,2) by simp
    with q(4) loc [OF a] show "(\<exists>d. parseErrorLine l = Some d \<and> propOf d ''filePath'' = JStr p) \<and>
          (\<exists>rest. l = p @ '':'' @ rest) \<and>
          (\<forall>k<length p. matchTail (drop k l) = None)"
      by blast
  qed
  have t2: "lineMatch l = None \<and> parseErrorLine l = Some d' \<longrightarrow> propOf d' ''filePath'' = JStr ''<text>''"
    by (auto simp: parseErrorLine_def unlocatedMessage_def propOf_def split: if_splits)
  have t3: "writeFile_error E (cppTempFile E) = None \<and>
    spawn E ''g++'' (cppArgs E) = Close exitCode out err created \<and>
    fst (runCppAnalysis E code w) = Resolved r \<and> success r \<and>
    l \<in> set (splitStr err (CHR 0x0A)) \<and> lineMatch l = Some (p, d1, d2, sev, m)
      \<longrightarrow> (\<exists>d\<in>set (diagnostics r). propOf d ''filePath'' = JStr p) \<and>
          map filePath (analysis r) = [''<text>'']"
  proof (intro impI)
    assume h: "writeFile_error E (cppTempFile E) = None \<and>
      spawn E ''g++'' (cppArgs E) = Close exitCode out err created \<and>
      fst (runCppAnalysis E code w) = Resolved r \<and> success r \<and>
      l \<in> set (splitStr err (CHR 0x0A)) \<and> lineMatch l = Some (p, d1, d2, sev, m)"
    then have r: "diagnostics r = parseStderr err" "map filePath (analysis r) = [''<text>'']"
      using cpp_success_diagnostics [of E exitCode out err created code w r] by blast+
    have ne: "err \<noteq> []"
    proof
      assume "err = []"
      with h have "l = []" by simp
      with h show False by simp
    qed
    from h have lm: "lineMatch l = Some (p, d1, d2, sev, m)" and mem: "l \<in> set (splitStr err (CHR 0x0A))"
      by blast+
    from loc [OF lm] mem have "locatedMessage (p, d1, d2, sev, m) \<in> set (parseStderr err)"
      using ne by (auto simp: parseStderr_def intro: forEachLine_intro)
    with r loc [OF lm] show "(\<exists>d\<in>set (diagnostics r). propOf d ''filePath'' = JStr p) \<and>
          map filePath (analysis r) = [''<text>'']"
      by auto
  qed
  from t1 t2 t3 show ?thesis by blast
qed

theorem located_filePath_witness:
  "cppTempFile (exampleEnv False (\<lambda>c. Inr []) pylintParse (Close (Some 1) [] gppStderr []))
     = ''/tmp/temp_cpp_code_1700000000000.cpp'' \<and>
   ''/tmp/temp_cpp_code_1700000000000.cpp:1:22: error: expected ';' before '}' token''
     \<in> set (splitStr gppStderr (CHR 0x0A)) \<and>
   lineMatch ''/tmp/temp_cpp_code_1700000000000.cpp:1:22: error: expected ';' before '}' token''
     = Some (''/tmp/temp_cpp_code_1700000000000.cpp'', ''1'', ''22'', ''error'',
             ''expected ';' before '}' token'') \<and>
   fst (runCppAnalysis (exampleEnv False (\<lambda>c. Inr []) pylintParse (Close (Some 1) [] gppStderr []))
          ''int main() { return 0 }'' emptyWorld)
     = Resolved (Success (textEntry [gppDiagnostic]) ''int main() { return 0 }'' JNull JNull JNull) \<and>
   (\<exists>d\<in>set [gppDiagnostic]. propOf d ''filePath'' = JStr ''/tmp/temp_cpp_code_1700000000000.cpp'') \<and>
   (\<exists>d. parseErrorLine
           ''/tmp/temp_cpp_code_1700000000000.cpp:1:22: error: expected ';' before '}' token''
         = Some d \<and>
        propOf d ''filePath'' = JStr ''/tmp/temp_cpp_code_1700000000000.cpp'') \<and>
   propOf (unlocatedMessage ''error'' fooStderr) ''filePath'' = JStr ''<text>''"
proof -
  let ?E = "exampleEnv False (\<lambda>c. Inr []) pylintParse (Close (Some 1) [] gppStderr [])"
  let ?l = "''/tmp/temp_cpp_code_1700000000000.cpp:1:22: error: expected ';' before '}' token''"
  let ?r = "Success (textEntry [gppDiagnostic]) ''int main() { return 0 }'' JNull JNull JNull"
  have p: "cppTempFile ?E = ''/tmp/temp_cpp_code_1700000000000.cpp''"
    by (rule example_paths)
  have mem: "?l \<in> set (splitStr gppStderr (CHR 0x0A))"
    by (simp add: gppStderr_def splitStr_def)
  have lm: "lineMatch ?l
     = Some (''/tmp/temp_cpp_code_1700000000000.cpp'', ''1'', ''22'', ''error'',
             ''expected ';' before '}' token'')"
    by (simp add: regex_evals string_evals)
  have run: "fst (runCppAnalysis ?E ''int main() { return 0 }'' emptyWorld) = Resolved ?r"
    by (rule gpp_example_run)
  have ev: "writeFile_error ?E (cppTempFile ?E) = None \<and>
            spawn ?E ''g++'' (cppArgs ?E) = Close (Some 1) [] gppStderr []"
    by (simp add: exampleEnv_def)
  have sc: "success ?r" by simp
  have "\<exists>d\<in>set (diagnostics ?r). propOf d ''filePath'' = JStr ''/tmp/temp_cpp_code_1700000000000.cpp''"
    using located_filePath [where E = ?E and exitCode = "Some 1" and out = "[]" and err = gppStderr
        and created = "[]" and code = "''int main() { return 0 }''" and w = emptyWorld and r = ?r
        and l = ?l and p = "''/tmp/temp_cpp_code_1700000000000.cpp''" and ?d1.0 = "''1''"
        and ?d2.0 = "''22''" and sev = "''error''" and m = "''expected ';' before '}' token''"]
      ev run sc mem lm
    by blast
  then have ex: "\<exists>d\<in>set [gppDiagnostic].
      propOf d ''filePath'' = JStr ''/tmp/temp_cpp_code_1700000000000.cpp''"
    by (simp add: textEntry_def)
  have h2: "lineMatch fooStderr = None \<and>
      parseErrorLine fooStderr = Some (unlocatedMessage ''error'' fooStderr)"
    by (simp add: parseErrorLine_def fooStderr_def regex_evals string_evals)
  have un: "propOf (unlocatedMessage ''error'' fooStderr) ''filePath'' = JStr ''<text>''"
    using located_filePath [where l = fooStderr and d' = "unlocatedMessage ''error'' fooStderr"] h2
    by blast
  have lo: "\<exists>d. parseErrorLine ?l = Some d \<and>
      propOf d ''filePath'' = JStr ''/tmp/temp_cpp_code_1700000000000.cpp''"
    using located_filePath [where l = ?l and p = "''/tmp/temp_cpp_code_1700000000000.cpp''"
        and ?d1.0 = "''1''" and ?d2.0 = "''22''" and sev = "''error''"
        and m = "''expected ';' before '}' token''"] lm
    by blast
  show ?thesis using p mem lm run ex lo un by blast
qed

end
